theory Spec2Isabelle
  imports Complex_Main "HOL-Library.Product_Lexorder" "HOL-Library.Option_ord"
begin

section \<open>Python values shared by the three services\<close>

text \<open>
  The services are Python classes that talk to the operating system (paths, disk usage,
  mount table, file copies) and to one SQLite database. What the operating system and the
  database answer is an explicit argument of every function below (an environment record),
  the mutable attributes and the database tables are an explicit state record, and every
  \<^verbatim>\<open>raise\<close> is a value of a sum type.

  Python floats are modelled as exact rationals: the usage ratio, the percentages and the
  thresholds are compared without rounding error. The concrete inputs used below are far
  from any rounding boundary of the double format.
\<close>

type_synonym path = string

datatype py_exception =
    OSError string
  | ZeroDivisionError
  | KeyError string
  | NameError string
  | DatabaseError string
  | PlainException string

text \<open>
  \<^verbatim>\<open>str(e)\<close>. Both divisions that can fail are float divisions, and the text of a
  \<^verbatim>\<open>KeyError\<close> is the \<^verbatim>\<open>repr\<close> of the key, in single quotes.
\<close>

definition quoted :: "string \<Rightarrow> string" where
  "quoted s = CHR 0x27 # s @ [CHR 0x27]"

fun str_of :: "py_exception \<Rightarrow> string" where
  "str_of (OSError s) = s"
| "str_of ZeroDivisionError = ''float division by zero''"
| "str_of (KeyError k) = quoted k"
| "str_of (NameError s) = s"
| "str_of (DatabaseError s) = s"
| "str_of (PlainException s) = s"

text \<open>\<^verbatim>\<open>shutil.disk_usage(path)\<close>: total, used and free bytes.\<close>

record usage =
  total :: int
  used :: int
  free :: int

definition gib :: rat where
  "gib = 1024 ^ 3"

text \<open>
  \<^verbatim>\<open>round(x, ndigits)\<close> on a float: to the nearest multiple of \<open>10\<^sup>-\<^sup>n\<close>, a tie going
  to the even neighbour.
\<close>

definition py_round :: "rat \<Rightarrow> nat \<Rightarrow> rat" where
  "py_round x ndigits =
     (let y = x * 10 ^ ndigits;
          f = \<lfloor>y\<rfloor>;
          r = y - of_int f
      in (if r < 1 / 2 then of_int f
          else if 1 / 2 < r then of_int (f + 1)
          else if even f then of_int f
          else of_int (f + 1)) / 10 ^ ndigits)"


section \<open>Storage monitor (services/storage\_monitor.py)\<close>

subsection \<open>What the operating system and the database answer\<close>

record os_env =
  path_exists :: "path \<Rightarrow> bool"
  readable :: "path \<Rightarrow> bool"
  writable :: "path \<Rightarrow> bool"
  disk_usage :: "path \<Rightarrow> py_exception + usage"
  disk_partitions :: "py_exception + path list"
  resolve_parents :: "path \<Rightarrow> py_exception + path list"
  events_insert_raises :: bool
  status_update_raises :: bool

text \<open>
  \<^item> \<open>path_exists\<close> is \<^verbatim>\<open>os.path.exists\<close>; \<open>readable p\<close> is
    \<^verbatim>\<open>os.access(p, os.R_OK)\<close>, and \<^verbatim>\<open>os.access(p, os.R_OK | os.W_OK)\<close> is
    \<open>readable p \<and> writable p\<close>.
  \<^item> \<open>disk_usage\<close> is \<^verbatim>\<open>shutil.disk_usage\<close>, which may raise.
  \<^item> \<open>disk_partitions\<close> is the list of \<^verbatim>\<open>mount.mountpoint\<close> of
    \<^verbatim>\<open>psutil.disk_partitions()\<close>, which may raise.
  \<^item> \<open>resolve_parents p\<close> is \<^verbatim>\<open>[str(q) for q in [Path(p).resolve()] + list(Path(p).resolve().parents)]\<close>,
    which may raise.
  \<^item> \<open>events_insert_raises\<close> and \<open>status_update_raises\<close> say whether the SQLite
    transaction on \<^verbatim>\<open>storage_events\<close>, respectively on \<^verbatim>\<open>storage_status\<close>, raises
    during the call (a locked or unreachable database file). A transaction that raises
    changes nothing: the \<^verbatim>\<open>with sqlite3.connect(...)\<close> block rolls back.
  The environment is the same for the whole of one call.
\<close>

subsection \<open>Data\<close>

record storage_info =
  path :: path
  is_available :: bool
  is_mounted :: bool
  capacity_gb :: rat
  used_gb :: rat
  free_gb :: rat
  usage_percent :: rat
  health_status :: string
  error :: "string option"

record storage_event =
  event_type :: string
  storage_type :: string
  message :: string

record status_row =
  mount_point :: path
  row_is_available :: bool
  row_capacity_gb :: "rat option"
  row_used_gb :: "rat option"
  row_free_gb :: "rat option"
  row_health_status :: string

text \<open>
  The monitor object with the two tables it owns. \<open>storage_events\<close> is the append-only
  table in insertion order (the autoincremented id is the position, the timestamp is the
  database's); \<open>storage_status\<close> is keyed by its \<^verbatim>\<open>storage_type\<close> column.
\<close>

record storage_monitor =
  primary_path :: path
  fallback_path :: path
  warning_threshold :: rat
  current_storage :: string
  storage_events :: "storage_event list"
  storage_status :: "string \<rightharpoonup> status_row"

record health_check =
  primary :: "storage_info option"
  fallback :: "storage_info option"
  hc_current_storage :: string
  recommended_storage :: "string option"
  should_switch :: bool
  overall_health :: string

datatype switch_result =
    Failure string
  | Success string string string

text \<open>
  \<open>Failure e\<close> is \<^verbatim>\<open>{'success': False, 'error': e}\<close>; \<open>Success msg old new\<close> is
  \<^verbatim>\<open>{'success': True, 'message': msg, 'old_storage': old, 'new_storage': new}\<close>.
\<close>

fun success :: "switch_result \<Rightarrow> bool" where
  "success (Failure e) = False"
| "success (Success msg old new) = True"

subsection \<open>The probe\<close>

definition is_path_mounted :: "os_env \<Rightarrow> path \<Rightarrow> bool" where
  "is_path_mounted env p =
     (case disk_partitions env of
        Inl e \<Rightarrow> False
      | Inr mount_points \<Rightarrow>
          (case resolve_parents env p of
             Inl e \<Rightarrow> False
           | Inr parents \<Rightarrow>
               if list_ex (\<lambda>parent. parent \<in> set mount_points) parents then True
               else path_exists env p \<and> readable env p))"

definition get_storage_info :: "os_env \<Rightarrow> storage_monitor \<Rightarrow> path \<Rightarrow> storage_info option" where
  "get_storage_info env m p =
     (if \<not> path_exists env p then None
      else
        case disk_usage env p of
          Inl e \<Rightarrow>
            Some \<lparr> path = p, is_available = False, is_mounted = False,
                   capacity_gb = 0, used_gb = 0, free_gb = 0, usage_percent = 0,
                   health_status = ''error'', error = Some (str_of e) \<rparr>
        | Inr u \<Rightarrow>
            let total_gb = of_int (total u) / gib;
                free_gb' = of_int (free u) / gib;
                used_gb' = of_int (total u - free u) / gib;
                mounted = is_path_mounted env p;
                usage_ratio = (if total_gb > 0 then used_gb' / total_gb else 0);
                status = (if usage_ratio \<ge> warning_threshold m then ''warning''
                          else if \<not> mounted then ''error''
                          else ''healthy'')
            in Some \<lparr> path = p,
                      is_available = (mounted \<and> readable env p \<and> writable env p),
                      is_mounted = mounted,
                      capacity_gb = py_round total_gb 2,
                      used_gb = py_round used_gb' 2,
                      free_gb = py_round free_gb' 2,
                      usage_percent = py_round (usage_ratio * 100) 1,
                      health_status = status,
                      error = None \<rparr>)"

subsection \<open>Health snapshot and switch\<close>

text \<open>Python's \<^verbatim>\<open>info and info['is_available']\<close> read as a truth value.\<close>

definition available :: "storage_info option \<Rightarrow> bool" where
  "available info = (case info of None \<Rightarrow> False | Some i \<Rightarrow> is_available i)"

definition get_overall_health :: "storage_info option \<Rightarrow> storage_info option \<Rightarrow> string" where
  "get_overall_health primary_info fallback_info =
     (case (primary_info, fallback_info) of
        (Some p_info, Some f_info) \<Rightarrow>
          let primary_healthy = (is_available p_info \<and> health_status p_info \<noteq> ''error'');
              fallback_healthy = (is_available f_info \<and> health_status f_info \<noteq> ''error'')
          in if primary_healthy \<and> fallback_healthy then ''healthy''
             else if primary_healthy \<or> fallback_healthy then ''warning''
             else ''error''
      | _ \<Rightarrow> ''error'')"

definition check_storage_health :: "os_env \<Rightarrow> storage_monitor \<Rightarrow> health_check" where
  "check_storage_health env m =
     (let primary_info = get_storage_info env m (primary_path m);
          fallback_info = get_storage_info env m (fallback_path m);
          recommended =
            (if available primary_info then Some ''primary''
             else if available fallback_info then Some ''fallback''
             else None);
          switch =
            (if current_storage m = ''primary'' \<and> \<not> available primary_info
             then (if available fallback_info then True else False)
             else if current_storage m = ''fallback'' \<and> available primary_info then True
             else False)
      in \<lparr> primary = primary_info, fallback = fallback_info,
           hc_current_storage = current_storage m,
           recommended_storage = recommended,
           should_switch = switch,
           overall_health = get_overall_health primary_info fallback_info \<rparr>)"

definition log_storage_event ::
    "os_env \<Rightarrow> string \<Rightarrow> string \<Rightarrow> string \<Rightarrow> storage_monitor \<Rightarrow> storage_monitor" where
  "log_storage_event env etype stype msg m =
     (if events_insert_raises env then m
      else m\<lparr>storage_events := storage_events m @
                [\<lparr>event_type = etype, storage_type = stype, message = msg\<rparr>]\<rparr>)"

definition update_row :: "storage_info \<Rightarrow> status_row \<Rightarrow> status_row" where
  "update_row i r =
     r\<lparr>row_is_available := is_available i,
       row_capacity_gb := Some (capacity_gb i),
       row_used_gb := Some (used_gb i),
       row_free_gb := Some (free_gb i),
       row_health_status := health_status i\<rparr>"

definition update_where ::
    "string \<Rightarrow> storage_info option \<Rightarrow> (string \<rightharpoonup> status_row) \<Rightarrow> (string \<rightharpoonup> status_row)" where
  "update_where key info tbl =
     (case info of
        None \<Rightarrow> tbl
      | Some i \<Rightarrow> (case tbl key of None \<Rightarrow> tbl | Some r \<Rightarrow> tbl(key \<mapsto> update_row i r)))"

definition update_storage_status :: "os_env \<Rightarrow> storage_monitor \<Rightarrow> storage_monitor" where
  "update_storage_status env m =
     (let hc = check_storage_health env m
      in if status_update_raises env then m
         else m\<lparr>storage_status :=
                  update_where ''fallback'' (fallback hc)
                    (update_where ''primary'' (primary hc) (storage_status m))\<rparr>)"

text \<open>
  \<^verbatim>\<open>target_storage.title()\<close> is only evaluated after the target has been checked to
  be one of the two names. Nothing in the body of \<^verbatim>\<open>switch_storage\<close> raises, since the
  probe and the two database helpers catch their own errors, so its outer handler has no
  branch here.
\<close>

definition title :: "string \<Rightarrow> string" where
  "title t = (if t = ''primary'' then ''Primary'' else ''Fallback'')"

definition switch_storage ::
    "os_env \<Rightarrow> string \<Rightarrow> storage_monitor \<Rightarrow> switch_result \<times> storage_monitor" where
  "switch_storage env target_storage m =
     (if target_storage \<notin> set [''primary'', ''fallback'']
      then (Failure ''Invalid storage type'', m)
      else
        let hc = check_storage_health env m;
            target_info = (if target_storage = ''primary'' then primary hc else fallback hc)
        in if \<not> available target_info
           then (Failure (title target_storage @ '' storage is not available''), m)
           else
             let old_storage = current_storage m;
                 m1 = m\<lparr>current_storage := target_storage\<rparr>;
                 m2 = log_storage_event env ''switch'' target_storage
                        (''Switched from '' @ old_storage @ '' to '' @ target_storage) m1;
                 m3 = update_storage_status env m2
             in (Success (''Switched to '' @ target_storage @ '' storage'')
                   old_storage target_storage, m3))"

definition auto_switch_storage ::
    "os_env \<Rightarrow> storage_monitor \<Rightarrow> switch_result option \<times> storage_monitor" where
  "auto_switch_storage env m =
     (let hc = check_storage_health env m
      in if should_switch hc
         then (case recommended_storage hc of
                 Some recommended \<Rightarrow>
                   (case switch_storage env recommended m of (r, m') \<Rightarrow> (Some r, m'))
               | None \<Rightarrow> (None, m))
         else (None, m))"


section \<open>Health checker (services/storage\_health\_checker.py)\<close>

subsection \<open>Configuration, environment and data\<close>

record config =
  synced_folder :: path
  backup_folder :: path
  storage_warning_threshold :: rat

record io_times =
  write_time :: rat
  read_time :: rat
  total_time :: nat

record hc_env =
  hc_path_exists :: "path \<Rightarrow> bool"
  hc_read_access :: "path \<Rightarrow> bool"
  hc_write_access :: "path \<Rightarrow> bool"
  elapsed_ms :: "string \<Rightarrow> nat"
  io_test :: "path \<Rightarrow> py_exception + io_times"
  hc_disk_usage :: "path \<Rightarrow> py_exception + usage"
  integrity_test :: "path \<Rightarrow> py_exception + string"
  integrity_cleanup :: "path \<Rightarrow> py_exception option"
  walk_files :: "path \<Rightarrow> py_exception + (path \<times> string \<times> bool) list"
  log_results_raises :: bool

text \<open>
  \<^item> \<open>hc_path_exists\<close>, \<open>hc_read_access\<close>, \<open>hc_write_access\<close>: \<^verbatim>\<open>os.path.exists\<close>,
    \<^verbatim>\<open>os.access(p, os.R_OK)\<close>, \<^verbatim>\<open>os.access(p, os.W_OK)\<close>; they answer for every string.
  \<^item> \<open>elapsed_ms name\<close>: the value of \<^verbatim>\<open>int((time.time() - start_time) * 1000)\<close> when the
    check called \<open>name\<close> builds a result on a path other than the timed I/O test.
  \<^item> \<open>io_test p\<close>: writing, syncing, reading back and removing the 1 MiB test file; it
    raises, or yields the write and read times in milliseconds and the truncated total.
  \<^item> \<open>integrity_test p\<close>: creating the test directory and file and reading the file
    back; it raises, or yields the content read. \<open>integrity_cleanup p\<close>: removing the file
    and the directory afterwards, \<open>Some e\<close> when that raises.
  \<^item> \<open>walk_files p\<close>: one entry \<open>(root, file, ok)\<close> for every file that
    \<^verbatim>\<open>os.walk\<close> yields, in its order, \<open>ok\<close> saying whether opening it and reading
    1 KiB succeeds.
  \<^item> \<open>log_results_raises\<close>: whether the SQLite transaction that stores the results raises.
\<close>

text \<open>
  The result of one check is a Python dict. Its \<^verbatim>\<open>passed\<close>, \<^verbatim>\<open>response_time_ms\<close> and
  \<^verbatim>\<open>error\<close> keys are fields (a missing \<^verbatim>\<open>error\<close> is \<open>None\<close>); its other numeric keys are
  the association list \<open>metrics\<close>, so that reading a key that is not there is a
  \<open>KeyError\<close>. The free-text \<^verbatim>\<open>message\<close> key is not modelled.
\<close>

record check_result =
  passed :: bool
  response_time_ms :: nat
  check_error :: "string option"
  metrics :: "(string \<times> rat) list"
  inaccessible_files :: "path list"

datatype alert_message =
    Text string
  | SlowIO nat
  | HighDiskUsage rat
  | InaccessibleFiles rat

record alert =
  alert_type :: string
  severity :: string
  alert_message :: alert_message

record health_results =
  hr_storage_type :: string
  storage_path :: path
  overall_status :: string
  checks :: "(string \<times> check_result) list"
  alerts :: "alert list"
  recommendations :: "string list"
  hr_error :: "string option"

record health_check_row =
  hcr_storage_type :: string
  check_type :: string
  status :: string
  hcr_response_time_ms :: nat
  error_message :: "string option"

record alert_row =
  ar_storage_type :: string
  ar_alert :: alert
  resolved :: bool

record health_checker =
  io_test_file_size :: nat
  max_io_time :: rat
  storage_health_checks :: "health_check_row list"
  storage_alerts :: "alert_row list"

definition failed_check :: "nat \<Rightarrow> string \<Rightarrow> check_result" where
  "failed_check ms e =
     \<lparr>passed = False, response_time_ms = ms, check_error = Some e, metrics = [],
      inaccessible_files = []\<rparr>"

text \<open>\<^verbatim>\<open>d[key]\<close> on the numeric keys of a check result.\<close>

definition get_metric :: "check_result \<Rightarrow> string \<Rightarrow> py_exception + rat" where
  "get_metric r key =
     (case map_of (metrics r) key of None \<Rightarrow> Inl (KeyError key) | Some v \<Rightarrow> Inr v)"

text \<open>\<^verbatim>\<open>d.get(key, 0)\<close>.\<close>

definition get_metric_or_0 :: "check_result \<Rightarrow> string \<Rightarrow> rat" where
  "get_metric_or_0 r key = (case map_of (metrics r) key of None \<Rightarrow> 0 | Some v \<Rightarrow> v)"

subsection \<open>The five checks\<close>

definition check_storage_availability :: "hc_env \<Rightarrow> path \<Rightarrow> check_result" where
  "check_storage_availability env p =
     (if \<not> hc_path_exists env p
      then failed_check (elapsed_ms env ''availability'') ''Storage path does not exist''
      else if \<not> hc_read_access env p
      then failed_check (elapsed_ms env ''availability'') ''No read access to storage''
      else if \<not> hc_write_access env p
      then failed_check (elapsed_ms env ''availability'') ''No write access to storage''
      else \<lparr>passed = True, response_time_ms = elapsed_ms env ''availability'',
             check_error = None, metrics = [], inaccessible_files = []\<rparr>)"

definition check_io_performance :: "hc_env \<Rightarrow> health_checker \<Rightarrow> path \<Rightarrow> check_result" where
  "check_io_performance env hc p =
     (case io_test env p of
        Inl e \<Rightarrow> failed_check (elapsed_ms env ''io_performance'') (str_of e)
      | Inr t \<Rightarrow>
          if total_time t = 0
          then failed_check (elapsed_ms env ''io_performance'') (str_of ZeroDivisionError)
          else
            \<lparr>passed = (of_nat (total_time t) < max_io_time hc * 1000),
             response_time_ms = total_time t,
             check_error = None,
             metrics =
               [(''write_time_ms'', of_int \<lfloor>write_time t\<rfloor>),
                (''read_time_ms'', of_int \<lfloor>read_time t\<rfloor>),
                (''throughput_mbps'',
                   py_round ((of_nat (io_test_file_size hc) / (1024 * 1024))
                              / (of_nat (total_time t) / 1000)) 2)],
             inaccessible_files = []\<rparr>)"

definition check_space_utilization :: "hc_env \<Rightarrow> config \<Rightarrow> path \<Rightarrow> check_result" where
  "check_space_utilization env cfg p =
     (case hc_disk_usage env p of
        Inl e \<Rightarrow> failed_check (elapsed_ms env ''space_utilization'') (str_of e)
      | Inr u \<Rightarrow>
          let total_gb = of_int (total u) / gib;
              free_gb' = of_int (free u) / gib;
              used_gb' = of_int (total u - free u) / gib
          in if total_gb = 0
             then failed_check (elapsed_ms env ''space_utilization'') (str_of ZeroDivisionError)
             else
               let usage = (used_gb' / total_gb) * 100;
                   threshold = storage_warning_threshold cfg * 100
               in \<lparr>passed = (usage < threshold),
                    response_time_ms = elapsed_ms env ''space_utilization'',
                    check_error = None,
                    metrics =
                      [(''total_gb'', py_round total_gb 2),
                       (''used_gb'', py_round used_gb' 2),
                       (''free_gb'', py_round free_gb' 2),
                       (''usage_percent'', py_round usage 1),
                       (''warning_threshold'', threshold)],
                    inaccessible_files = []\<rparr>)"

definition check_file_system_integrity :: "hc_env \<Rightarrow> path \<Rightarrow> check_result" where
  "check_file_system_integrity env p =
     (case integrity_test env p of
        Inl e \<Rightarrow> failed_check (elapsed_ms env ''file_system_integrity'') (str_of e)
      | Inr content \<Rightarrow>
          if content \<noteq> ''integrity test''
          then failed_check (elapsed_ms env ''file_system_integrity'')
                 (str_of (PlainException ''File content mismatch''))
          else
            (case integrity_cleanup env p of
               Some e \<Rightarrow> failed_check (elapsed_ms env ''file_system_integrity'') (str_of e)
             | None \<Rightarrow>
                 \<lparr>passed = True, response_time_ms = elapsed_ms env ''file_system_integrity'',
                  check_error = None, metrics = [], inaccessible_files = []\<rparr>))"

text \<open>\<^verbatim>\<open>str.lower\<close> on the ASCII letters, \<^verbatim>\<open>str.endswith\<close> and \<^verbatim>\<open>os.path.join\<close> (POSIX).\<close>

definition lower_char :: "char \<Rightarrow> char" where
  "lower_char c =
     (case map_of (zip ''ABCDEFGHIJKLMNOPQRSTUVWXYZ'' ''abcdefghijklmnopqrstuvwxyz'') c of
        None \<Rightarrow> c
      | Some d \<Rightarrow> d)"

definition lower :: "string \<Rightarrow> string" where
  "lower s = map lower_char s"

definition endswith :: "string \<Rightarrow> string \<Rightarrow> bool" where
  "endswith s ext = (length ext \<le> length s \<and> drop (length s - length ext) s = ext)"

definition path_join :: "path \<Rightarrow> path \<Rightarrow> path" where
  "path_join a b =
     (if b \<noteq> [] \<and> hd b = CHR ''/'' then b
      else if a = [] \<or> last a = CHR ''/'' then a @ b
      else a @ ''/'' @ b)"

definition is_music_file :: "string \<Rightarrow> bool" where
  "is_music_file file =
     list_ex (endswith (lower file)) [''.mp3'', ''.wav'', ''.flac'', ''.m4a'', ''.aac'', ''.ogg'']"

definition check_music_files_accessibility :: "hc_env \<Rightarrow> path \<Rightarrow> check_result" where
  "check_music_files_accessibility env p =
     (case walk_files env p of
        Inl e \<Rightarrow> failed_check (elapsed_ms env ''music_files'') (str_of e)
      | Inr entries \<Rightarrow>
          let found = filter (\<lambda>(root, file, ok). is_music_file file) entries;
              music_files = map (\<lambda>(root, file, ok). path_join root file) found;
              inaccessible =
                map (\<lambda>(root, file, ok). path_join root file)
                  (filter (\<lambda>(root, file, ok). \<not> ok) found);
              total_files = length music_files;
              inaccessible_count = length inaccessible;
              accessible_count = total_files - inaccessible_count
          in \<lparr>passed =
                 ((of_nat inaccessible_count :: rat) / of_nat (max total_files 1) < 5 / 100),
               response_time_ms = elapsed_ms env ''music_files'',
               check_error = None,
               metrics =
                 [(''total_files'', of_nat total_files),
                  (''accessible_files'', of_nat accessible_count),
                  (''inaccessible_count'', of_nat inaccessible_count)],
               inaccessible_files = take 10 inaccessible\<rparr>)"

subsection \<open>Aggregation\<close>

definition get_check :: "health_results \<Rightarrow> string \<Rightarrow> check_result option" where
  "get_check hr name = map_of (checks hr) name"

text \<open>\<^verbatim>\<open>health_results['checks'][name] = result\<close> for a name that is not yet a key.\<close>

definition set_check :: "string \<Rightarrow> check_result \<Rightarrow> health_results \<Rightarrow> health_results" where
  "set_check name r hr = hr\<lparr>checks := checks hr @ [(name, r)]\<rparr>"

definition add_alert :: "string \<Rightarrow> string \<Rightarrow> alert_message \<Rightarrow> health_results \<Rightarrow> health_results" where
  "add_alert t sev msg hr =
     hr\<lparr>alerts := alerts hr @ [\<lparr>alert_type = t, severity = sev, alert_message = msg\<rparr>]\<rparr>"

definition generate_recommendations :: "health_results \<Rightarrow> string list" where
  "generate_recommendations hr =
     (let usage =
            (case get_check hr ''space_utilization'' of
               None \<Rightarrow> 0 | Some c \<Rightarrow> get_metric_or_0 c ''usage_percent'');
          io_ms =
            (case get_check hr ''io_performance'' of
               None \<Rightarrow> 0 | Some c \<Rightarrow> response_time_ms c);
          inaccessible =
            (case get_check hr ''music_files'' of
               None \<Rightarrow> 0 | Some c \<Rightarrow> get_metric_or_0 c ''inaccessible_count'')
      in (if 80 < usage
          then [''Consider cleaning up old or unused music files''] @
               (if 90 < usage then [''Urgent: Free up disk space immediately''] else [])
          else [])
       @ (if 2000 < io_ms
          then [''Storage I/O performance is slow - consider checking disk health'']
          else [])
       @ (if 0 < inaccessible
          then [''Some music files are inaccessible - run file system check'']
          else [])
       @ (if overall_status hr = ''error''
          then [''Critical issues detected - immediate attention required'']
          else if overall_status hr = ''warning''
          then [''Monitor storage closely and address warnings promptly'']
          else []))"

definition log_health_check_results ::
    "hc_env \<Rightarrow> string \<Rightarrow> health_results \<Rightarrow> health_checker \<Rightarrow> health_checker" where
  "log_health_check_results env stype hr hc =
     (if log_results_raises env then hc
      else
        hc\<lparr>storage_health_checks := storage_health_checks hc @
              map (\<lambda>(name, r).
                     \<lparr>hcr_storage_type = stype, check_type = name,
                      status = (if passed r then ''passed'' else ''failed''),
                      hcr_response_time_ms = response_time_ms r,
                      error_message = check_error r\<rparr>) (checks hr),
           storage_alerts := storage_alerts hc @
              map (\<lambda>a. \<lparr>ar_storage_type = stype, ar_alert = a, resolved = False\<rparr>) (alerts hr)\<rparr>)"

text \<open>
  The body of the \<^verbatim>\<open>try\<close> block, one step per check. A step that raises gives the
  exception together with the report as it stands at that moment, since the handler works
  on the mutated dict.
\<close>

definition space_step ::
    "check_result \<Rightarrow> health_results \<Rightarrow> (py_exception \<times> health_results) + health_results" where
  "space_step space_result hr =
     (if \<not> passed space_result
      then
        (case get_metric space_result ''usage_percent'' of
           Inl e \<Rightarrow> Inl (e, hr)
         | Inr usage \<Rightarrow>
             let sev = (if 95 < usage then ''critical'' else ''warning'');
                 hr1 = hr\<lparr>overall_status := (if sev = ''warning'' then ''warning'' else ''error'')\<rparr>
             in Inr (add_alert ''space'' sev (HighDiskUsage usage) hr1))
      else Inr hr)"

definition integrity_step :: "check_result \<Rightarrow> health_results \<Rightarrow> health_results" where
  "integrity_step integrity_result hr =
     (if \<not> passed integrity_result
      then add_alert ''integrity'' ''critical'' (Text ''File system integrity issues detected'')
             (hr\<lparr>overall_status := ''error''\<rparr>)
      else hr)"

definition music_step ::
    "check_result \<Rightarrow> health_results \<Rightarrow> (py_exception \<times> health_results) + health_results" where
  "music_step music_files_result hr =
     (if \<not> passed music_files_result
      then
        let hr1 = hr\<lparr>overall_status := ''warning''\<rparr>
        in (case get_metric music_files_result ''inaccessible_count'' of
              Inl e \<Rightarrow> Inl (e, hr1)
            | Inr n \<Rightarrow> Inr (add_alert ''music_files'' ''warning'' (InaccessibleFiles n) hr1))
      else Inr hr)"

datatype run_outcome =
    EarlyReturn health_results
  | Raised py_exception health_results
  | Completed health_results

definition run_checks :: "hc_env \<Rightarrow> config \<Rightarrow> health_checker \<Rightarrow> health_results \<Rightarrow> run_outcome" where
  "run_checks env cfg hc hr0 =
     (let p = storage_path hr0;
          availability_result = check_storage_availability env p;
          hr1 = set_check ''availability'' availability_result hr0
      in if \<not> passed availability_result
         then EarlyReturn
                (add_alert ''availability'' ''critical'' (Text ''Storage is not available'')
                   (hr1\<lparr>overall_status := ''error''\<rparr>))
         else
           let io_result = check_io_performance env hc p;
               hr2 = set_check ''io_performance'' io_result hr1;
               hr3 = (if \<not> passed io_result
                      then add_alert ''performance'' ''warning''
                             (SlowIO (response_time_ms io_result))
                             (hr2\<lparr>overall_status := ''warning''\<rparr>)
                      else hr2);
               space_result = check_space_utilization env cfg p;
               hr4 = set_check ''space_utilization'' space_result hr3
           in (case space_step space_result hr4 of
                 Inl (e, hr) \<Rightarrow> Raised e hr
               | Inr hr5 \<Rightarrow>
                   let integrity_result = check_file_system_integrity env p;
                       hr6 = integrity_step integrity_result
                               (set_check ''file_system_integrity'' integrity_result hr5);
                       music_files_result = check_music_files_accessibility env p;
                       hr7 = set_check ''music_files'' music_files_result hr6
                   in (case music_step music_files_result hr7 of
                         Inl (e, hr) \<Rightarrow> Raised e hr
                       | Inr hr8 \<Rightarrow>
                           Completed (hr8\<lparr>recommendations := generate_recommendations hr8\<rparr>))))"

definition initial_results :: "string \<Rightarrow> path \<Rightarrow> health_results" where
  "initial_results stype p =
     \<lparr>hr_storage_type = stype, storage_path = p, overall_status = ''healthy'',
      checks = [], alerts = [], recommendations = [], hr_error = None\<rparr>"

definition config_path :: "config \<Rightarrow> string \<Rightarrow> path" where
  "config_path cfg stype = (if stype = ''primary'' then synced_folder cfg else backup_folder cfg)"

text \<open>
  \<open>Inl e\<close> is \<^verbatim>\<open>{'success': False, 'error': e}\<close>, returned for a storage type that is
  neither name; \<open>Inr\<close> carries the report.
\<close>

definition perform_comprehensive_health_check ::
    "hc_env \<Rightarrow> config \<Rightarrow> string \<Rightarrow> health_checker \<Rightarrow> (string + health_results) \<times> health_checker" where
  "perform_comprehensive_health_check env cfg stype hc =
     (if stype \<noteq> ''primary'' \<and> stype \<noteq> ''fallback''
      then (Inl ''Invalid storage type'', hc)
      else
        (case run_checks env cfg hc (initial_results stype (config_path cfg stype)) of
              EarlyReturn hr \<Rightarrow> (Inr hr, hc)
            | Raised e hr \<Rightarrow>
                (Inr (hr\<lparr>overall_status := ''error'', hr_error := Some (str_of e)\<rparr>), hc)
            | Completed hr \<Rightarrow> (Inr hr, log_health_check_results env stype hr hc)))"


section \<open>Backup manager (services/backup\_manager.py)\<close>

subsection \<open>Files, catalog and environment\<close>

text \<open>
  A regular file is modelled by what the backup manager observes of it: the MD5 hex digest
  of its content and its size. The file system maps a path to the regular file there;
  \<^verbatim>\<open>os.path.exists\<close> is membership in its domain, and removing an existing file succeeds.
\<close>

record regular_file =
  md5 :: string
  file_size :: nat

text \<open>
  A row of the \<^verbatim>\<open>songs\<close> table, with the columns the backup manager reads or writes
  (timestamps are numbers, NULL is \<open>None\<close>). The table is the list of its rows in rowid
  order; \<^verbatim>\<open>id\<close> is its primary key.
\<close>

record song =
  song_id :: int
  filename :: string
  filepath :: path
  play_count :: int
  last_played :: "nat option"
  storage_location :: string
  song_fallback_path :: "path option"
  is_backup_synced :: bool
  backup_date :: "nat option"
  checksum :: "string option"
  song_is_available :: bool

record log_row =
  log_song_id :: int
  action :: string
  source_path :: "path option"
  destination_path :: "path option"
  log_file_size :: "nat option"
  log_checksum :: "string option"
  log_error_message :: "string option"

record backup_state =
  files :: "path \<rightharpoonup> regular_file"
  songs :: "song list"
  backup_sync_log :: "log_row list"

record backup_manager =
  bm_fallback_path :: path
  max_backup_songs :: nat

datatype db_txn =
    TxnBackupCreated int
  | TxnBackupFailed int
  | TxnCount
  | TxnCleanup
  | TxnCandidates
  | TxnVerify

record bm_env =
  makedirs :: "path \<Rightarrow> py_exception option"
  copy2 :: "path \<Rightarrow> regular_file \<Rightarrow> path \<Rightarrow> (py_exception \<times> regular_file option) + regular_file"
  fallback_usage :: "py_exception + usage"
  db_raises :: "db_txn \<Rightarrow> py_exception option"
  now :: nat


record verify_results =
  verified :: nat
  corrupted :: nat
  missing :: nat

subsection \<open>Helpers\<close>

definition basename :: "path \<Rightarrow> string" where
  "basename p = rev (takeWhile (\<lambda>c. c \<noteq> CHR ''/'') (rev p))"

text \<open>\<^verbatim>\<open>get_file_checksum\<close>: the digest, or the empty string when the file cannot be read.\<close>

definition get_file_checksum :: "backup_state \<Rightarrow> path \<Rightarrow> string" where
  "get_file_checksum st p = (case files st p of None \<Rightarrow> [] | Some f \<Rightarrow> md5 f)"

text \<open>\<^verbatim>\<open>UPDATE songs SET ... WHERE id = ?\<close>.\<close>

definition update_songs :: "int \<Rightarrow> (song \<Rightarrow> song) \<Rightarrow> backup_state \<Rightarrow> backup_state" where
  "update_songs i f st = st\<lparr>songs := map (\<lambda>s. if song_id s = i then f s else s) (songs st)\<rparr>"

definition append_log :: "log_row \<Rightarrow> backup_state \<Rightarrow> backup_state" where
  "append_log row st = st\<lparr>backup_sync_log := backup_sync_log st @ [row]\<rparr>"

definition is_backed_up :: "song \<Rightarrow> bool" where
  "is_backed_up s = (storage_location s = ''fallback'' \<or> storage_location s = ''both'')"

text \<open>\<^verbatim>\<open>SELECT COUNT(*) FROM songs WHERE storage_location IN ('fallback', 'both')\<close>.\<close>

definition backup_count :: "backup_state \<Rightarrow> nat" where
  "backup_count st = length (filter is_backed_up (songs st))"



subsection \<open>backup\_song\<close>

definition mark_backed_up :: "path \<Rightarrow> string \<Rightarrow> nat \<Rightarrow> song \<Rightarrow> song" where
  "mark_backed_up fallback_filepath source_checksum t s =
     s\<lparr>storage_location := ''both'',
       song_fallback_path := Some fallback_filepath,
       is_backup_synced := True,
       backup_date := Some t,
       checksum := Some source_checksum\<rparr>"

text \<open>
  The body of the \<^verbatim>\<open>try\<close> block after the source has been found to exist: \<open>Inl\<close> is an
  exception on its way to the handler, with the state at that moment.
\<close>

definition backup_song_body ::
    "bm_env \<Rightarrow> backup_manager \<Rightarrow> song \<Rightarrow> regular_file \<Rightarrow> backup_state
       \<Rightarrow> (py_exception \<times> backup_state) + (bool \<times> backup_state)" where
  "backup_song_body env bm sng src st =
     (let source_path = filepath sng;
          fallback_filepath = path_join (bm_fallback_path bm) (basename source_path)
      in case makedirs env (bm_fallback_path bm) of
           Some e \<Rightarrow> Inl (e, st)
         | None \<Rightarrow>
             if source_path = fallback_filepath
             then Inl (OSError (quoted source_path @ '' and '' @ quoted fallback_filepath
                                @ '' are the same file''), st)
             else
               (case copy2 env source_path src fallback_filepath of
                  Inl (e, partial) \<Rightarrow>
                    Inl (e, (case partial of
                               None \<Rightarrow> st
                             | Some f \<Rightarrow> st\<lparr>files := (files st)(fallback_filepath \<mapsto> f)\<rparr>))
                | Inr written \<Rightarrow>
                    let st1 = st\<lparr>files := (files st)(fallback_filepath \<mapsto> written)\<rparr>;
                        source_checksum = get_file_checksum st1 source_path;
                        backup_checksum = get_file_checksum st1 fallback_filepath
                    in if source_checksum \<noteq> backup_checksum
                       then Inr (False, st1\<lparr>files := (files st1)(fallback_filepath := None)\<rparr>)
                       else
                         (case db_raises env (TxnBackupCreated (song_id sng)) of
                            Some e \<Rightarrow> Inl (e, st1)
                          | None \<Rightarrow>
                              Inr (True,
                                append_log
                                  \<lparr>log_song_id = song_id sng, action = ''backup_created'',
                                   source_path = Some source_path,
                                   destination_path = Some fallback_filepath,
                                   log_file_size = Some (file_size written),
                                   log_checksum = Some source_checksum,
                                   log_error_message = None\<rparr>
                                  (update_songs (song_id sng)
                                     (mark_backed_up fallback_filepath source_checksum (now env))
                                     st1)))))"

text \<open>
  \<open>Inl e\<close> in the result: the handler's own insert into the log raised, so \<open>e\<close> leaves
  \<^verbatim>\<open>backup_song\<close>.
\<close>

definition backup_song ::
    "bm_env \<Rightarrow> backup_manager \<Rightarrow> song \<Rightarrow> backup_state \<Rightarrow> (py_exception + bool) \<times> backup_state" where
  "backup_song env bm sng st =
     (case files st (filepath sng) of
        None \<Rightarrow> (Inr False, st)
      | Some src \<Rightarrow>
          (case backup_song_body env bm sng src st of
             Inr (b, st') \<Rightarrow> (Inr b, st')
           | Inl (e, st') \<Rightarrow>
               (case db_raises env (TxnBackupFailed (song_id sng)) of
                  Some e' \<Rightarrow> (Inl e', st')
                | None \<Rightarrow>
                    (Inr False,
                     append_log
                       \<lparr>log_song_id = song_id sng, action = ''backup_failed'',
                        source_path = Some (filepath sng), destination_path = None,
                        log_file_size = None, log_checksum = None,
                        log_error_message = Some (str_of e)\<rparr> st'))))"

subsection \<open>Eviction and sync\<close>


definition demote :: "song \<Rightarrow> song" where
  "demote s =
     s\<lparr>storage_location := ''primary'', song_fallback_path := None,
       is_backup_synced := False, backup_date := None\<rparr>"

definition remove_backup :: "song \<Rightarrow> backup_state \<Rightarrow> backup_state" where
  "remove_backup sng st =
     (let st1 =
            (case song_fallback_path sng of
               None \<Rightarrow> st
             | Some p \<Rightarrow>
                 if p \<noteq> [] \<and> p \<in> dom (files st)
                 then st\<lparr>files := (files st)(p := None)\<rparr> else st)
      in append_log
           \<lparr>log_song_id = song_id sng, action = ''backup_removed'',
            source_path = None, destination_path = song_fallback_path sng,
            log_file_size = None, log_checksum = None, log_error_message = None\<rparr>
           (update_songs (song_id sng) demote st1))"




subsection \<open>verify\_backup\_integrity\<close>

text \<open>Python's truth value of a TEXT column: NULL and the empty string are false.\<close>

definition truthy :: "string option \<Rightarrow> bool" where
  "truthy v = (case v of None \<Rightarrow> False | Some s \<Rightarrow> s \<noteq> [])"

definition mark_missing :: "song \<Rightarrow> song" where
  "mark_missing s =
     s\<lparr>storage_location := ''primary'', is_backup_synced := False,
       song_fallback_path := None\<rparr>"

fun verify_loop ::
    "song list \<Rightarrow> verify_results \<Rightarrow> backup_state \<Rightarrow> verify_results \<times> backup_state" where
  "verify_loop [] results st = (results, st)"
| "verify_loop (sng # rest) results st =
     (case song_fallback_path sng of
        None \<Rightarrow> verify_loop rest results st
      | Some fp \<Rightarrow>
          if fp \<notin> dom (files st)
          then verify_loop rest (results\<lparr>missing := missing results + 1\<rparr>)
                 (update_songs (song_id sng) mark_missing st)
          else if truthy (checksum sng) \<and> Some (get_file_checksum st fp) \<noteq> checksum sng
          then verify_loop rest (results\<lparr>corrupted := corrupted results + 1\<rparr>) st
          else verify_loop rest (results\<lparr>verified := verified results + 1\<rparr>) st)"

definition backup_songs :: "backup_state \<Rightarrow> song list" where
  "backup_songs st =
     filter (\<lambda>s. is_backed_up s \<and> song_fallback_path s \<noteq> None) (songs st)"

definition verify_backup_integrity ::
    "bm_env \<Rightarrow> backup_state \<Rightarrow> verify_results \<times> backup_state" where
  "verify_backup_integrity env st =
     (let results = \<lparr>verified = 0, corrupted = 0, missing = 0\<rparr>
      in case db_raises env TxnVerify of
           Some e \<Rightarrow> (results, st)
         | None \<Rightarrow> verify_loop (backup_songs st) results st)"


section \<open>Auxiliary notions used in the statements\<close>

text \<open>The path whose probe decides a switch to \<open>t\<close>.\<close>

definition target_path :: "storage_monitor \<Rightarrow> string \<Rightarrow> path" where
  "target_path m t = (if t = ''primary'' then primary_path m else fallback_path m)"

definition switch_event :: "string \<Rightarrow> string \<Rightarrow> storage_event" where
  "switch_event old new =
     \<lparr>event_type = ''switch'', storage_type = new,
      message = ''Switched from '' @ old @ '' to '' @ new\<rparr>"

text \<open>Used over total bytes, as a rational.\<close>

definition used_ratio :: "usage \<Rightarrow> rat" where
  "used_ratio u = of_int (total u - free u) / of_int (total u)"

text \<open>
  The status that the assignments of a run leave behind when no step raises: the last
  failing check in source order decides.
\<close>

definition status_after :: "bool \<Rightarrow> bool \<Rightarrow> rat \<Rightarrow> bool \<Rightarrow> bool \<Rightarrow> string" where
  "status_after io_ok space_ok usage integrity_ok music_ok =
     (if \<not> music_ok then ''warning''
      else if \<not> integrity_ok then ''error''
      else if \<not> space_ok then (if 95 < usage then ''error'' else ''warning'')
      else if \<not> io_ok then ''warning''
      else ''healthy'')"

definition space_alerts :: "health_results \<Rightarrow> alert list" where
  "space_alerts hr = filter (\<lambda>a. alert_type a = ''space'') (alerts hr)"


text \<open>Where \<^verbatim>\<open>backup_song\<close> puts the copy of a song.\<close>

definition fallback_filepath :: "backup_manager \<Rightarrow> song \<Rightarrow> path" where
  "fallback_filepath bm sng = path_join (bm_fallback_path bm) (basename (filepath sng))"


text \<open>
  What \<^verbatim>\<open>verify_backup_integrity\<close> makes of a row, given the file system: rows that do
  not claim a fallback copy, or claim one without a fallback path, are not examined; a row
  whose stored checksum is NULL or empty cannot be found corrupted.
\<close>

datatype verdict = NotExamined | Missing | Corrupted | Verified

definition verdict_of :: "(path \<rightharpoonup> regular_file) \<Rightarrow> song \<Rightarrow> verdict" where
  "verdict_of fs s =
     (if \<not> is_backed_up s then NotExamined
      else
        case song_fallback_path s of
          None \<Rightarrow> NotExamined
        | Some fp \<Rightarrow>
            (case fs fp of
               None \<Rightarrow> Missing
             | Some f \<Rightarrow>
                 if truthy (checksum s) \<and> checksum s \<noteq> Some (md5 f) then Corrupted
                 else Verified))"

definition count_verdict :: "verdict \<Rightarrow> backup_state \<Rightarrow> nat" where
  "count_verdict v st = length (filter (\<lambda>s. verdict_of (files st) s = v) (songs st))"



section \<open>Scenarios\<close>

subsection \<open>Storage monitor\<close>

definition initial_status :: "string \<rightharpoonup> status_row" where
  "initial_status =
     [''primary'' \<mapsto>
        \<lparr>mount_point = ''/media/ssd/synced'', row_is_available = False,
         row_capacity_gb = None, row_used_gb = None, row_free_gb = None,
         row_health_status = ''unknown''\<rparr>,
      ''fallback'' \<mapsto>
        \<lparr>mount_point = ''/home/pi/music_backup'', row_is_available = False,
         row_capacity_gb = None, row_used_gb = None, row_free_gb = None,
         row_health_status = ''unknown''\<rparr>]"

definition monitor0 :: storage_monitor where
  "monitor0 =
     \<lparr>primary_path = ''/media/ssd/synced'', fallback_path = ''/home/pi/music_backup'',
      warning_threshold = 9 / 10, current_storage = ''primary'',
      storage_events = [], storage_status = initial_status\<rparr>"

text \<open>Both directories exist below the root mount, 40 of 100 GiB used, database reachable.\<close>

definition env_both_ok :: os_env where
  "env_both_ok =
     \<lparr>path_exists = (\<lambda>p. True), readable = (\<lambda>p. True), writable = (\<lambda>p. True),
      disk_usage =
        (\<lambda>p. Inr \<lparr>total = 100 * 1024 ^ 3, used = 40 * 1024 ^ 3, free = 60 * 1024 ^ 3\<rparr>),
      disk_partitions = Inr [''/''],
      resolve_parents = (\<lambda>p. Inr [p, ''/'']),
      events_insert_raises = False, status_update_raises = False\<rparr>"

text \<open>The same, with the insert into \<^verbatim>\<open>storage_events\<close> raising (database locked).\<close>

definition env_db_locked :: os_env where
  "env_db_locked = env_both_ok\<lparr>events_insert_raises := True\<rparr>"

text \<open>The fallback directory does not exist.\<close>

definition env_fallback_down :: os_env where
  "env_fallback_down = env_both_ok\<lparr>path_exists := (\<lambda>p. p \<noteq> ''/home/pi/music_backup'')\<rparr>"

text \<open>95 of 100 GiB used and the mount table cannot be read, so nothing counts as mounted.\<close>

definition env_unmounted_full :: os_env where
  "env_unmounted_full =
     env_both_ok
       \<lparr>disk_usage :=
          (\<lambda>p. Inr \<lparr>total = 100 * 1024 ^ 3, used = 95 * 1024 ^ 3, free = 5 * 1024 ^ 3\<rparr>),
        disk_partitions := Inl (OSError ''cannot read mount table'')\<rparr>"

text \<open>No path exists.\<close>

definition env_missing :: os_env where
  "env_missing = env_both_ok\<lparr>path_exists := (\<lambda>p. False)\<rparr>"

subsection \<open>Health checker\<close>

definition config0 :: config where
  "config0 =
     \<lparr>synced_folder = ''/media/ssd/synced'', backup_folder = ''/home/pi/music_backup'',
      storage_warning_threshold = 9 / 10\<rparr>"

definition checker0 :: health_checker where
  "checker0 =
     \<lparr>io_test_file_size = 1024 * 1024, max_io_time = 5,
      storage_health_checks = [], storage_alerts = []\<rparr>"

text \<open>Every check passes: 40 of 100 GiB used, two readable music files.\<close>

definition hc_env_ok :: hc_env where
  "hc_env_ok =
     \<lparr>hc_path_exists = (\<lambda>p. True), hc_read_access = (\<lambda>p. True),
      hc_write_access = (\<lambda>p. True),
      elapsed_ms = (\<lambda>name. 1),
      io_test = (\<lambda>p. Inr \<lparr>write_time = 12, read_time = 3, total_time = 20\<rparr>),
      hc_disk_usage =
        (\<lambda>p. Inr \<lparr>total = 100 * 1024 ^ 3, used = 40 * 1024 ^ 3, free = 60 * 1024 ^ 3\<rparr>),
      integrity_test = (\<lambda>p. Inr ''integrity test''),
      integrity_cleanup = (\<lambda>p. None),
      walk_files =
        (\<lambda>p. Inr [(p, ''a.mp3'', True), (p, ''b.FLAC'', True), (p, ''notes.txt'', False)]),
      log_results_raises = False\<rparr>"

text \<open>
  The integrity test reads back a truncated content, and one of the two music files cannot
  be opened.
\<close>

definition hc_env_integrity_music_fail :: hc_env where
  "hc_env_integrity_music_fail =
     hc_env_ok
       \<lparr>integrity_test := (\<lambda>p. Inr ''integrity te''),
        walk_files := (\<lambda>p. Inr [(p, ''a.mp3'', True), (p, ''b.FLAC'', False)])\<rparr>"






subsection \<open>Backup manager\<close>

definition bm0 :: backup_manager where
  "bm0 = \<lparr>bm_fallback_path = ''/home/pi/music_backup'', max_backup_songs = 100\<rparr>"

definition song1 :: song where
  "song1 =
     \<lparr>song_id = 1, filename = ''a.mp3'', filepath = ''/media/ssd/synced/a.mp3'',
      play_count = 7, last_played = Some 50, storage_location = ''primary'',
      song_fallback_path = None, is_backup_synced = False, backup_date = None,
      checksum = Some ''aaaa'', song_is_available = True\<rparr>"

definition file_a :: regular_file where
  "file_a = \<lparr>md5 = ''aaaa'', file_size = 4096\<rparr>"

definition state1 :: backup_state where
  "state1 =
     \<lparr>files = [''/media/ssd/synced/a.mp3'' \<mapsto> file_a], songs = [song1],
      backup_sync_log = []\<rparr>"

text \<open>Copies are faithful, 20 GiB free on the fallback volume, database reachable.\<close>

definition env_copy_ok :: bm_env where
  "env_copy_ok =
     \<lparr>makedirs = (\<lambda>p. None),
      copy2 = (\<lambda>src f dst. Inr f),
      fallback_usage = Inr \<lparr>total = 32 * 1024 ^ 3, used = 12 * 1024 ^ 3, free = 20 * 1024 ^ 3\<rparr>,
      db_raises = (\<lambda>t. None),
      now = 1000\<rparr>"

text \<open>The copy is cut short: what arrives has another digest and size.\<close>

definition env_copy_truncated :: bm_env where
  "env_copy_truncated =
     env_copy_ok\<lparr>copy2 := (\<lambda>src f dst. Inr \<lparr>md5 = ''bbbb'', file_size = 1024\<rparr>)\<rparr>"


text \<open>
  Two rows claim a fallback copy and have no usable stored checksum (NULL, respectively the
  empty string); both fallback files exist.
\<close>

definition song_null_checksum :: song where
  "song_null_checksum =
     \<lparr>song_id = 2, filename = ''b.mp3'', filepath = ''/media/ssd/synced/b.mp3'',
      play_count = 3, last_played = None, storage_location = ''both'',
      song_fallback_path = Some ''/home/pi/music_backup/b.mp3'', is_backup_synced = True,
      backup_date = Some 900, checksum = None, song_is_available = True\<rparr>"

definition song_empty_checksum :: song where
  "song_empty_checksum =
     \<lparr>song_id = 3, filename = ''c.mp3'', filepath = ''/media/ssd/synced/c.mp3'',
      play_count = 5, last_played = Some 40, storage_location = ''both'',
      song_fallback_path = Some ''/home/pi/music_backup/c.mp3'', is_backup_synced = True,
      backup_date = Some 901, checksum = Some [], song_is_available = True\<rparr>"

definition state_no_checksum :: backup_state where
  "state_no_checksum =
     \<lparr>files = [''/home/pi/music_backup/b.mp3'' \<mapsto> \<lparr>md5 = ''cccc'', file_size = 10\<rparr>,
               ''/home/pi/music_backup/c.mp3'' \<mapsto> \<lparr>md5 = ''dddd'', file_size = 20\<rparr>],
      songs = [song_null_checksum, song_empty_checksum],
      backup_sync_log = []\<rparr>"

text \<open>
  Three rows claim a fallback copy with a stored checksum: the first file is gone, the
  second has another digest, the third is intact.
\<close>

definition song_with_backup :: "int \<Rightarrow> string \<Rightarrow> string \<Rightarrow> song" where
  "song_with_backup i name digest =
     \<lparr>song_id = i, filename = name, filepath = ''/media/ssd/synced/'' @ name,
      play_count = i, last_played = None, storage_location = ''both'',
      song_fallback_path = Some (''/home/pi/music_backup/'' @ name), is_backup_synced = True,
      backup_date = Some 900, checksum = Some digest, song_is_available = True\<rparr>"

definition state_three_backups :: backup_state where
  "state_three_backups =
     \<lparr>files = [''/home/pi/music_backup/y'' \<mapsto> \<lparr>md5 = ''ffff'', file_size = 10\<rparr>,
               ''/home/pi/music_backup/z'' \<mapsto> \<lparr>md5 = ''3333'', file_size = 20\<rparr>],
      songs = [song_with_backup 1 ''x'' ''1111'', song_with_backup 2 ''y'' ''2222'',
               song_with_backup 3 ''z'' ''3333''],
      backup_sync_log = []\<rparr>"

text \<open>
  A catalog of 111 songs, all marked \<open>both\<close>, song \<open>i\<close> played \<open>i\<close> times, with their
  fallback files in place.
\<close>

definition numbered_song :: "nat \<Rightarrow> song" where
  "numbered_song i = song_with_backup (int i) (replicate i CHR ''s'' @ ''.mp3'') ''1111''"


section \<open>Properties of the storage monitor\<close>

subsection \<open>Helper facts\<close>

lemma get_storage_info_current [simp]:
  "get_storage_info env (m\<lparr>current_storage := c\<rparr>) p = get_storage_info env m p"
  by (cases "disk_usage env p") (simp_all add: get_storage_info_def)

lemma get_storage_info_events [simp]:
  "get_storage_info env (m\<lparr>storage_events := es\<rparr>) p = get_storage_info env m p"
  by (cases "disk_usage env p") (simp_all add: get_storage_info_def)

lemma get_storage_info_status [simp]:
  "get_storage_info env (m\<lparr>storage_status := s\<rparr>) p = get_storage_info env m p"
  by (cases "disk_usage env p") (simp_all add: get_storage_info_def)

lemma get_storage_info_log [simp]:
  "get_storage_info env (log_storage_event env t s msg m) p = get_storage_info env m p"
  by (simp add: log_storage_event_def)

lemma get_storage_info_update [simp]:
  "get_storage_info env (update_storage_status env m) p = get_storage_info env m p"
  by (simp add: update_storage_status_def Let_def)

lemma update_storage_status_keeps [simp]:
  "current_storage (update_storage_status env m) = current_storage m"
  "storage_events (update_storage_status env m) = storage_events m"
  "primary_path (update_storage_status env m) = primary_path m"
  "fallback_path (update_storage_status env m) = fallback_path m"
  by (simp_all add: update_storage_status_def Let_def)

lemma log_storage_event_keeps [simp]:
  "current_storage (log_storage_event env t s msg m) = current_storage m"
  "primary_path (log_storage_event env t s msg m) = primary_path m"
  "fallback_path (log_storage_event env t s msg m) = fallback_path m"
  by (simp_all add: log_storage_event_def)

lemma log_storage_event_events:
  "storage_events (log_storage_event env t s msg m) =
     storage_events m @
       (if events_insert_raises env then []
        else [\<lparr>event_type = t, storage_type = s, message = msg\<rparr>])"
  by (simp add: log_storage_event_def)

text \<open>What \<^verbatim>\<open>switch_storage\<close> does for a valid target, in one equation.\<close>

lemma switch_storage_valid:
  assumes "X = ''primary'' \<or> X = ''fallback''"
  shows "switch_storage env X m =
     (if \<not> available (get_storage_info env m (target_path m X))
      then (Failure (title X @ '' storage is not available''), m)
      else (Success (''Switched to '' @ X @ '' storage'') (current_storage m) X,
            update_storage_status env
              (log_storage_event env ''switch'' X
                 (''Switched from '' @ current_storage m @ '' to '' @ X)
                 (m\<lparr>current_storage := X\<rparr>))))"
  using assms
  by (auto simp: switch_storage_def Let_def check_storage_health_def target_path_def)

lemma switch_storage_invalid:
  assumes "X \<noteq> ''primary''" and "X \<noteq> ''fallback''"
  shows "switch_storage env X m = (Failure ''Invalid storage type'', m)"
  using assms by (simp add: switch_storage_def)

lemma available_both_ok: "available (get_storage_info env_both_ok monitor0 p)"
  by (simp add: available_def get_storage_info_def env_both_ok_def is_path_mounted_def Let_def)

lemma available_db_locked: "available (get_storage_info env_db_locked monitor0 p)"
  by (simp add: available_def get_storage_info_def env_db_locked_def env_both_ok_def
      is_path_mounted_def Let_def)

lemma unavailable_fallback_down:
  "\<not> available (get_storage_info env_fallback_down monitor0 ''/home/pi/music_backup'')"
  by (simp add: available_def get_storage_info_def env_fallback_down_def env_both_ok_def)

lemma ratio_gib: "of_int a / gib / (of_int b / gib) = (of_int a :: rat) / of_int b"
  by (simp add: gib_def)

subsection \<open>Switching\<close>



text \<open>
  C1, as the code has it. A successful \<^verbatim>\<open>switch_storage(X)\<close> leaves
  \<open>current_storage = X\<close> and appends exactly one event of type \<open>switch\<close> when the insert into
  \<^verbatim>\<open>storage_events\<close> goes through; when that insert raises, the error is logged and
  swallowed, the call still reports success and no event is appended. A call against a
  target whose probe is unavailable returns a failure and leaves the whole monitor, its
  current storage and its events included, as it was.
\<close>

theorem switch_storage_safety:
  assumes "switch_storage env X m = (r, m')"
  shows "(success r \<longrightarrow>
            current_storage m' = X
          \<and> storage_events m' =
              storage_events m @
                (if events_insert_raises env then []
                 else [switch_event (current_storage m) X]))
       \<and> ((X = ''primary'' \<or> X = ''fallback'')
            \<and> \<not> available (get_storage_info env m (target_path m X)) \<longrightarrow>
            \<not> success r \<and> m' = m)"
proof (cases "X = ''primary'' \<or> X = ''fallback''")
  case True
  from assms show ?thesis
    unfolding switch_storage_valid [OF True]
    by (auto simp: log_storage_event_events switch_event_def split: if_splits)
next
  case False
  then show ?thesis
    using assms by (auto simp: switch_storage_invalid)
qed

theorem switch_storage_safety_witness:
  "(success (fst (switch_storage env_both_ok ''fallback'' monitor0))
      \<and> current_storage (snd (switch_storage env_both_ok ''fallback'' monitor0)) = ''fallback''
      \<and> storage_events (snd (switch_storage env_both_ok ''fallback'' monitor0))
          = [switch_event ''primary'' ''fallback''])
   \<and> (\<not> success (fst (switch_storage env_fallback_down ''fallback'' monitor0))
      \<and> snd (switch_storage env_fallback_down ''fallback'' monitor0) = monitor0)"
proof -
  have s: "success (fst (switch_storage env_both_ok ''fallback'' monitor0))"
    by (simp add: switch_storage_valid available_both_ok)
  have u: "\<not> available
      (get_storage_info env_fallback_down monitor0 (target_path monitor0 ''fallback''))"
    using unavailable_fallback_down by (simp add: target_path_def monitor0_def)
  have e: "\<not> events_insert_raises env_both_ok" "storage_events monitor0 = []"
    "current_storage monitor0 = ''primary''"
    by (simp_all add: env_both_ok_def monitor0_def)
  show ?thesis
    using switch_storage_safety [OF prod.collapse [symmetric],
        of env_both_ok "''fallback''" monitor0]
      switch_storage_safety [OF prod.collapse [symmetric],
        of env_fallback_down "''fallback''" monitor0]
      s u e
    by simp
qed

text \<open>
  The claim as the specification states it fails when the event table cannot be written:
  the switch to \<open>fallback\<close> succeeds and is committed, and no event has been appended.
\<close>

theorem switch_without_event_counterexample:
  "success (fst (switch_storage env_db_locked ''fallback'' monitor0))
   \<and> current_storage (snd (switch_storage env_db_locked ''fallback'' monitor0)) = ''fallback''
   \<and> storage_events (snd (switch_storage env_db_locked ''fallback'' monitor0))
       = storage_events monitor0"
  by (simp add: switch_storage_valid available_db_locked log_storage_event_events)
    (simp add: env_db_locked_def)

text \<open>
  C10, as the code has it. A switch to the storage that is already active, with its probe
  available, is not rejected: it returns success, leaves \<open>current_storage\<close> as it was and
  appends a \<open>switch\<close> event from \<open>X\<close> to \<open>X\<close> when the insert into
  \<^verbatim>\<open>storage_events\<close> goes through (none when that insert raises). A second call does the
  same again, so with a writable event table two calls append two such events.
\<close>

theorem switch_to_active_storage:
  assumes "X = current_storage m" and "X = ''primary'' \<or> X = ''fallback''"
    and "available (get_storage_info env m (target_path m X))"
    and "switch_storage env X m = (r, m')"
    and "switch_storage env X m' = (r2, m2)"
  shows "success r \<and> current_storage m' = current_storage m
       \<and> storage_events m' =
           storage_events m @
             (if events_insert_raises env then [] else [switch_event X X])
       \<and> success r2 \<and> current_storage m2 = current_storage m
       \<and> storage_events m2 =
           storage_events m @
             (if events_insert_raises env then [] else [switch_event X X, switch_event X X])"
proof -
  have first: "success r" "current_storage m' = X"
    "storage_events m' =
       storage_events m @ (if events_insert_raises env then [] else [switch_event X X])"
    "target_path m' X = target_path m X"
    "get_storage_info env m' = get_storage_info env m"
    using assms(1,3,4) unfolding switch_storage_valid [OF assms(2)]
    by (auto simp: log_storage_event_events switch_event_def target_path_def)
  have av: "available (get_storage_info env m' (target_path m' X))"
    using assms(3) first(4,5) by simp
  have second: "success r2" "current_storage m2 = X"
    "storage_events m2 =
       storage_events m' @ (if events_insert_raises env then [] else [switch_event X X])"
    using av first(2) assms(5) unfolding switch_storage_valid [OF assms(2)]
    by (auto simp: log_storage_event_events switch_event_def)
  show ?thesis
    using first(1,2,3) second assms(1) by simp
qed

theorem switch_to_active_storage_witness:
  "success (fst (switch_storage env_both_ok ''primary'' monitor0))
   \<and> current_storage (snd (switch_storage env_both_ok ''primary'' monitor0)) = ''primary''
   \<and> storage_events (snd (switch_storage env_both_ok ''primary'' monitor0))
       = [switch_event ''primary'' ''primary'']
   \<and> storage_events
        (snd (switch_storage env_both_ok ''primary''
               (snd (switch_storage env_both_ok ''primary'' monitor0))))
       = [switch_event ''primary'' ''primary'', switch_event ''primary'' ''primary'']"
proof -
  have c: "''primary'' = current_storage monitor0" "storage_events monitor0 = []"
    "\<not> events_insert_raises env_both_ok"
    by (simp_all add: monitor0_def env_both_ok_def)
  show ?thesis
    using switch_to_active_storage [OF c(1) _ available_both_ok
        prod.collapse [symmetric] prod.collapse [symmetric]] c
    by simp
qed

text \<open>
  The claim as stated fails when the event table cannot be written: the repeated switch
  succeeds and no event is appended.
\<close>

theorem switch_to_active_without_event_counterexample:
  "success (fst (switch_storage env_db_locked ''primary'' monitor0))
   \<and> current_storage monitor0 = ''primary''
   \<and> storage_events (snd (switch_storage env_db_locked ''primary'' monitor0))
       = storage_events monitor0"
  by (simp add: switch_storage_valid available_db_locked log_storage_event_events)
    (simp add: env_db_locked_def monitor0_def)

subsection \<open>The probe\<close>

lemma get_storage_info_nonexistent:
  "\<not> path_exists env p \<Longrightarrow> get_storage_info env m p = None"
  by (simp add: get_storage_info_def)

text \<open>
  The part of C4 that holds: the probe is a total function, and an error of the disk-usage
  query becomes an unavailable endpoint of tier \<open>error\<close> with the error text attached.
\<close>

lemma get_storage_info_os_error:
  assumes "path_exists env p" and "disk_usage env p = Inl e"
  shows "get_storage_info env m p =
      Some \<lparr>path = p, is_available = False, is_mounted = False,
             capacity_gb = 0, used_gb = 0, free_gb = 0, usage_percent = 0,
             health_status = ''error'', error = Some (str_of e)\<rparr>"
  using assms by (simp add: get_storage_info_def)

text \<open>
  C4 at its failing input. For the path \<^verbatim>\<open>/nonexistent/path\<close>, which does not exist, the
  probe returns \<^verbatim>\<open>None\<close>: no endpoint record at all, where the claim (and the repository's
  own test \<^verbatim>\<open>test_get_storage_info_nonexistent_path\<close>) expect a record marked unavailable
  with tier \<open>error\<close>.
\<close>

theorem get_storage_info_nonexistent_is_None:
  "get_storage_info env_missing monitor0 ''/nonexistent/path'' = None"
  by (simp add: get_storage_info_def env_missing_def env_both_ok_def)

text \<open>
  C8, as the code has it. For an existing path whose disk usage can be read, the probe
  assigns \<open>warning\<close> whenever the usage ratio is at or above the threshold, mounted or not;
  it assigns \<open>error\<close> only when the ratio is below the threshold and the path does not
  resolve to a mounted filesystem, and \<open>healthy\<close> when it is below and mounted. So the
  usage-based \<open>warning\<close> takes precedence over the unmounted \<open>error\<close>. An unmounted path
  is marked unavailable in every case.
\<close>

theorem probe_health_tier:
  assumes "path_exists env p" and "disk_usage env p = Inr u" and "0 < total u"
  shows "\<exists>i. get_storage_info env m p = Some i
       \<and> is_mounted i = is_path_mounted env p
       \<and> (\<not> is_path_mounted env p \<longrightarrow> \<not> is_available i)
       \<and> health_status i =
           (if warning_threshold m \<le> used_ratio u then ''warning''
            else if \<not> is_path_mounted env p then ''error''
            else ''healthy'')"
proof -
  have pos: "0 < (of_int (total u) :: rat) / gib"
    using assms(3) by (simp add: gib_def)
  show ?thesis
    using assms(1,2) pos
    unfolding get_storage_info_def Let_def ratio_gib used_ratio_def
    by auto
qed

theorem probe_health_tier_witness:
  "\<exists>i. get_storage_info env_unmounted_full monitor0 ''/media/ssd/synced'' = Some i
     \<and> \<not> is_mounted i \<and> \<not> is_available i \<and> health_status i = ''warning''"
proof -
  let ?u = "\<lparr>total = 100 * 1024 ^ 3, used = 95 * 1024 ^ 3, free = 5 * 1024 ^ 3\<rparr>"
  have 1: "path_exists env_unmounted_full ''/media/ssd/synced''"
    and 2: "disk_usage env_unmounted_full ''/media/ssd/synced'' = Inr ?u"
    and 3: "0 < total ?u"
    and 4: "\<not> is_path_mounted env_unmounted_full ''/media/ssd/synced''"
    and 5: "warning_threshold monitor0 \<le> used_ratio ?u"
    by (simp_all add: env_unmounted_full_def env_both_ok_def is_path_mounted_def
        monitor0_def used_ratio_def)
  show ?thesis
    using probe_health_tier [OF 1 2 3, of monitor0] 4 5 by simp
qed

text \<open>
  The claim as stated fails on an existing, unmounted path that is 95 percent full: the
  tier is \<open>warning\<close>, not \<open>error\<close>.
\<close>

theorem unmounted_full_is_warning_counterexample:
  "map_option is_mounted
     (get_storage_info env_unmounted_full monitor0 ''/media/ssd/synced'') = Some False
   \<and> map_option health_status
     (get_storage_info env_unmounted_full monitor0 ''/media/ssd/synced'') = Some ''warning''"
  by (simp add: get_storage_info_def env_unmounted_full_def env_both_ok_def monitor0_def
      is_path_mounted_def gib_def Let_def)


section \<open>Properties of the health checker\<close>

subsection \<open>Rounding to one decimal\<close>




subsection \<open>The steps of a run\<close>

lemma overall_status_set_check [simp]:
  "overall_status (set_check name r hr) = overall_status hr"
  by (simp add: set_check_def)

lemma overall_status_add_alert [simp]:
  "overall_status (add_alert t sev msg hr) = overall_status hr"
  by (simp add: add_alert_def)

lemma storage_path_set_check [simp]: "storage_path (set_check name r hr) = storage_path hr"
  by (simp add: set_check_def)

lemma storage_path_add_alert [simp]: "storage_path (add_alert t sev msg hr) = storage_path hr"
  by (simp add: add_alert_def)

lemma checks_set_check [simp]: "checks (set_check name r hr) = checks hr @ [(name, r)]"
  by (simp add: set_check_def)

lemma checks_add_alert [simp]: "checks (add_alert t sev msg hr) = checks hr"
  by (simp add: add_alert_def)

lemma checks_integrity_step [simp]: "checks (integrity_step r hr) = checks hr"
  by (simp add: integrity_step_def)

lemma space_step_Inr:
  "space_step r hr = Inr hr' \<Longrightarrow>
     checks hr' = checks hr
   \<and> overall_status hr' =
       (if passed r then overall_status hr
        else if 95 < get_metric_or_0 r ''usage_percent'' then ''error'' else ''warning'')"
  by (auto simp: space_step_def get_metric_def get_metric_or_0_def Let_def
      split: if_splits option.splits)

lemma music_step_Inr:
  "music_step r hr = Inr hr' \<Longrightarrow>
     checks hr' = checks hr
   \<and> overall_status hr' = (if passed r then overall_status hr else ''warning'')"
  by (auto simp: music_step_def get_metric_def Let_def split: if_splits option.splits)

lemma integrity_step_status:
  "overall_status (integrity_step r hr) = (if passed r then overall_status hr else ''error'')"
  by (simp add: integrity_step_def)

lemma space_step_figure:
  assumes "get_metric r ''usage_percent'' = Inr x"
  shows "space_step r hr =
     Inr (if passed r then hr
          else add_alert ''space'' (if 95 < x then ''critical'' else ''warning'') (HighDiskUsage x)
                 (hr\<lparr>overall_status := (if 95 < x then ''error'' else ''warning'')\<rparr>))"
  using assms by (simp add: space_step_def Let_def)

lemma space_step_passed: "passed r \<Longrightarrow> space_step r hr = Inr hr"
  by (simp add: space_step_def)

lemma music_step_passed: "passed r \<Longrightarrow> music_step r hr = Inr hr"
  by (simp add: music_step_def)

lemma music_step_count:
  "get_metric r ''inaccessible_count'' = Inr n \<Longrightarrow> \<exists>hr'. music_step r hr = Inr hr'"
  by (simp add: music_step_def Let_def)

text \<open>A run that completes leaves the status that \<open>status_after\<close> describes.\<close>

lemma run_checks_completed_status:
  assumes "run_checks env cfg hc hr0 = Completed hr" and "overall_status hr0 = ''healthy''"
  shows "overall_status hr =
           status_after
             (passed (check_io_performance env hc (storage_path hr0)))
             (passed (check_space_utilization env cfg (storage_path hr0)))
             (get_metric_or_0 (check_space_utilization env cfg (storage_path hr0)) ''usage_percent'')
             (passed (check_file_system_integrity env (storage_path hr0)))
             (passed (check_music_files_accessibility env (storage_path hr0)))"
  using assms
  unfolding run_checks_def Let_def
  by (auto simp: status_after_def integrity_step_status
      split: if_splits sum.splits prod.splits
      dest!: space_step_Inr music_step_Inr)

lemma run_checks_completed_checks:
  assumes "run_checks env cfg hc hr0 = Completed hr"
  shows "checks hr = checks hr0 @
           [(''availability'', check_storage_availability env (storage_path hr0)),
            (''io_performance'', check_io_performance env hc (storage_path hr0)),
            (''space_utilization'', check_space_utilization env cfg (storage_path hr0)),
            (''file_system_integrity'', check_file_system_integrity env (storage_path hr0)),
            (''music_files'', check_music_files_accessibility env (storage_path hr0))]"
  using assms
  unfolding run_checks_def Let_def
  by (auto split: if_splits sum.splits prod.splits dest!: space_step_Inr music_step_Inr)

lemma run_checks_early_status:
  assumes "run_checks env cfg hc hr0 = EarlyReturn hr"
  shows "overall_status hr = ''error''
       \<and> \<not> passed (check_storage_availability env (storage_path hr0))"
  using assms unfolding run_checks_def Let_def
  by (auto split: if_splits sum.splits prod.splits)


lemma run_checks_raised:
  assumes "run_checks env cfg hc hr0 = Raised e hr"
  shows "\<not> passed (check_space_utilization env cfg (storage_path hr0))
       \<or> \<not> passed (check_music_files_accessibility env (storage_path hr0))"
  using assms unfolding run_checks_def Let_def
  by (auto simp: space_step_passed music_step_passed split: if_splits sum.splits prod.splits)

lemma run_checks_completes:
  assumes "passed (check_storage_availability env (storage_path hr0))"
    and "passed (check_space_utilization env cfg (storage_path hr0))
         \<or> (\<exists>x. get_metric (check_space_utilization env cfg (storage_path hr0))
                   ''usage_percent'' = Inr x)"
    and "passed (check_music_files_accessibility env (storage_path hr0))
         \<or> (\<exists>n. get_metric (check_music_files_accessibility env (storage_path hr0))
                   ''inaccessible_count'' = Inr n)"
  shows "\<exists>hr. run_checks env cfg hc hr0 = Completed hr"
proof -
  have s: "space_step (check_space_utilization env cfg (storage_path hr0)) hr \<noteq> Inl z"
    for hr z
    using assms(2) by (auto simp: space_step_passed space_step_figure)
  have m: "music_step (check_music_files_accessibility env (storage_path hr0)) hr \<noteq> Inl z"
    for hr z
    using assms(3) by (auto simp: music_step_def Let_def)
  show ?thesis
    using assms(1) unfolding run_checks_def Let_def
    by (auto simp: s m split: sum.splits prod.splits)
qed

lemma perform_outcomes:
  assumes "stype = ''primary'' \<or> stype = ''fallback''"
    and "perform_comprehensive_health_check env cfg stype hc = (Inr hr, hc')"
  shows "run_checks env cfg hc (initial_results stype (config_path cfg stype)) = EarlyReturn hr
       \<or> run_checks env cfg hc (initial_results stype (config_path cfg stype)) = Completed hr
       \<or> (\<exists>e hr1. run_checks env cfg hc (initial_results stype (config_path cfg stype))
                     = Raised e hr1
             \<and> hr = hr1\<lparr>overall_status := ''error'', hr_error := Some (str_of e)\<rparr>)"
  using assms
  unfolding perform_comprehensive_health_check_def
  by (auto split: if_splits run_outcome.splits)


lemma perform_completed:
  assumes "stype = ''primary'' \<or> stype = ''fallback''"
    and "run_checks env cfg hc (initial_results stype (config_path cfg stype)) = Completed hr"
  shows "fst (perform_comprehensive_health_check env cfg stype hc) = Inr hr"
  using assms
  unfolding perform_comprehensive_health_check_def
  by auto

lemma initial_results_simps [simp]:
  "storage_path (initial_results stype p) = p"
  "overall_status (initial_results stype p) = ''healthy''"
  "checks (initial_results stype p) = []"
  "alerts (initial_results stype p) = []"
  by (simp_all add: initial_results_def)

subsection \<open>Aggregation\<close>

text \<open>The two parts of C3 that hold on the code.\<close>

lemma all_checks_pass_healthy:
  assumes "stype = ''primary'' \<or> stype = ''fallback''"
    and "perform_comprehensive_health_check env cfg stype hc = (Inr hr, hc')"
    and "passed (check_storage_availability env (config_path cfg stype))"
    and "passed (check_io_performance env hc (config_path cfg stype))"
    and "passed (check_space_utilization env cfg (config_path cfg stype))"
    and "passed (check_file_system_integrity env (config_path cfg stype))"
    and "passed (check_music_files_accessibility env (config_path cfg stype))"
  shows "overall_status hr = ''healthy''"
proof -
  let ?hr0 = "initial_results stype (config_path cfg stype)"
  have "run_checks env cfg hc ?hr0 = Completed hr"
    using perform_outcomes [OF assms(1,2)] run_checks_early_status [of env cfg hc ?hr0]
      run_checks_raised [of env cfg hc ?hr0] assms(3,5,7)
    by auto
  from run_checks_completed_status [OF this] assms(4-7)
  show ?thesis by (simp add: status_after_def)
qed

lemma failing_check_not_healthy:
  assumes "stype = ''primary'' \<or> stype = ''fallback''"
    and "perform_comprehensive_health_check env cfg stype hc = (Inr hr, hc')"
    and "\<not> (passed (check_storage_availability env (config_path cfg stype))
           \<and> passed (check_io_performance env hc (config_path cfg stype))
           \<and> passed (check_space_utilization env cfg (config_path cfg stype))
           \<and> passed (check_file_system_integrity env (config_path cfg stype))
           \<and> passed (check_music_files_accessibility env (config_path cfg stype)))"
  shows "overall_status hr \<noteq> ''healthy''"
proof -
  let ?hr0 = "initial_results stype (config_path cfg stype)"
  consider (early) "run_checks env cfg hc ?hr0 = EarlyReturn hr"
    | (completed) "run_checks env cfg hc ?hr0 = Completed hr"
    | (raised) "overall_status hr = ''error''"
    using perform_outcomes [OF assms(1,2)] by auto
  then show ?thesis
  proof cases
    case early
    then show ?thesis using run_checks_early_status by fastforce
  next
    case completed
    have av: "passed (check_storage_availability env (config_path cfg stype))"
      using completed unfolding run_checks_def Let_def
      by (auto split: if_splits)
    from run_checks_completed_status [OF completed] assms(3) av
    show ?thesis by (auto simp: status_after_def)
  next
    case raised
    then show ?thesis by simp
  qed
qed

lemma integrity_music_fail_checks:
  "passed (check_storage_availability hc_env_integrity_music_fail ''/media/ssd/synced'')"
  "passed (check_io_performance hc_env_integrity_music_fail checker0 ''/media/ssd/synced'')"
  "passed (check_space_utilization hc_env_integrity_music_fail config0 ''/media/ssd/synced'')"
  "\<not> passed (check_file_system_integrity hc_env_integrity_music_fail ''/media/ssd/synced'')"
  "\<not> passed (check_music_files_accessibility hc_env_integrity_music_fail ''/media/ssd/synced'')"
  "get_metric (check_music_files_accessibility hc_env_integrity_music_fail ''/media/ssd/synced'')
     ''inaccessible_count'' = Inr 1"
  by (simp_all add: hc_env_integrity_music_fail_def hc_env_ok_def checker0_def config0_def
      check_storage_availability_def check_io_performance_def check_space_utilization_def
      check_file_system_integrity_def check_music_files_accessibility_def failed_check_def
      gib_def Let_def get_metric_def is_music_file_def endswith_def lower_def lower_char_def)

text \<open>
  C3 at its failing input. The availability, I/O and space checks pass, the filesystem
  integrity check fails (the content read back is truncated) and one of two music files
  cannot be opened. The integrity step sets the status to \<open>error\<close>, and the music step then
  overwrites it: the run reports \<open>warning\<close> although its integrity check failed, where the
  claim requires \<open>error\<close> regardless of the later checks.
\<close>

theorem integrity_failure_reported_as_warning:
  "(case fst (perform_comprehensive_health_check hc_env_integrity_music_fail config0
               ''primary'' checker0) of
      Inl e \<Rightarrow> False
    | Inr hr \<Rightarrow>
        map_option passed (get_check hr ''file_system_integrity'') = Some False
        \<and> overall_status hr = ''warning'')"
proof -
  let ?env = hc_env_integrity_music_fail
  let ?hr0 = "initial_results ''primary'' (config_path config0 ''primary'')"
  have p: "config_path config0 ''primary'' = ''/media/ssd/synced''"
    by (simp add: config_path_def config0_def)
  note c = integrity_music_fail_checks
  obtain hr where run: "run_checks ?env config0 checker0 ?hr0 = Completed hr"
    using run_checks_completes [of ?env ?hr0 config0 checker0] c(1,3,6) by (auto simp: p)
  have "overall_status hr = ''warning''"
    using run_checks_completed_status [OF run] c(5) by (simp add: p status_after_def)
  moreover have "map_option passed (get_check hr ''file_system_integrity'') = Some False"
    using run_checks_completed_checks [OF run] c(4) by (simp add: p get_check_def)
  moreover have "fst (perform_comprehensive_health_check ?env config0 ''primary'' checker0)
      = Inr hr"
    using perform_completed [OF _ run] by simp
  ultimately show ?thesis by simp
qed

subsection \<open>Space utilization\<close>


text \<open>
  The other way for the space check to fail: the disk-usage query raises, or the volume
  has size zero. The result then has no usage figure, and reading it raises in turn.
\<close>

lemma space_check_errored:
  assumes "hc_disk_usage env p = Inl e \<or> (\<exists>u. hc_disk_usage env p = Inr u \<and> total u = 0)"
  shows "\<not> passed (check_space_utilization env cfg p)"
    and "get_metric (check_space_utilization env cfg p) ''usage_percent''
           = Inl (KeyError ''usage_percent'')"
  using assms
  by (auto simp: check_space_utilization_def Let_def gib_def failed_check_def get_metric_def)

lemma space_alerts_simps [simp]:
  "space_alerts (set_check name r hr) = space_alerts hr"
  "space_alerts (hr\<lparr>overall_status := s\<rparr>) = space_alerts hr"
  "space_alerts (hr\<lparr>recommendations := rs\<rparr>) = space_alerts hr"
  "space_alerts (hr\<lparr>hr_error := e\<rparr>) = space_alerts hr"
  "space_alerts (add_alert t sev msg hr) =
     space_alerts hr @
       (if t = ''space'' then [\<lparr>alert_type = t, severity = sev, alert_message = msg\<rparr>] else [])"
  "space_alerts (initial_results stype p) = []"
  by (simp_all add: space_alerts_def set_check_def add_alert_def initial_results_def)

lemma space_alerts_integrity_step [simp]:
  "space_alerts (integrity_step r hr) = space_alerts hr"
  by (simp add: integrity_step_def)











section \<open>Properties of the backup manager\<close>

subsection \<open>backup\_song\<close>

lemma append_log_simps [simp]:
  "songs (append_log row st) = songs st"
  "files (append_log row st) = files st"
  "backup_sync_log (append_log row st) = backup_sync_log st @ [row]"
  by (simp_all add: append_log_def)

lemma update_songs_simps [simp]:
  "songs (update_songs i f st) = map (\<lambda>s. if song_id s = i then f s else s) (songs st)"
  "files (update_songs i f st) = files st"
  "backup_sync_log (update_songs i f st) = backup_sync_log st"
  by (simp_all add: update_songs_def)

text \<open>
  C5. When the file that the copy leaves at the fallback path has a digest other than the
  source's, \<^verbatim>\<open>backup_song\<close> removes that file, returns \<^verbatim>\<open>False\<close> and leaves the catalog
  (and the audit log) untouched, so a record at \<open>primary\<close> stays at \<open>primary\<close>. When it
  returns \<^verbatim>\<open>True\<close>, the fallback file has the source's digest and every record with the
  song's id has \<open>storage_location = both\<close> with the fallback path, the source checksum and
  the backup date stored.
\<close>

theorem backup_song_checksum_verified:
  assumes "files st (filepath sng) = Some src"
  shows "(makedirs env (bm_fallback_path bm) = None
           \<and> filepath sng \<noteq> fallback_filepath bm sng
           \<and> copy2 env (filepath sng) src (fallback_filepath bm sng) = Inr written
           \<and> md5 written \<noteq> md5 src \<longrightarrow>
           backup_song env bm sng st =
             (Inr False, st\<lparr>files := (files st)(fallback_filepath bm sng := None)\<rparr>))
       \<and> (backup_song env bm sng st = (Inr True, st') \<longrightarrow>
           (\<exists>w. files st' (fallback_filepath bm sng) = Some w \<and> md5 w = md5 src)
           \<and> songs st' =
               map (\<lambda>s. if song_id s = song_id sng
                         then s\<lparr>storage_location := ''both'',
                                song_fallback_path := Some (fallback_filepath bm sng),
                                is_backup_synced := True,
                                backup_date := Some (now env),
                                checksum := Some (md5 src)\<rparr>
                         else s) (songs st))"
proof (intro conjI impI)
  assume a: "makedirs env (bm_fallback_path bm) = None
           \<and> filepath sng \<noteq> fallback_filepath bm sng
           \<and> copy2 env (filepath sng) src (fallback_filepath bm sng) = Inr written
           \<and> md5 written \<noteq> md5 src"
  then have "backup_song_body env bm sng src st =
      Inr (False, st\<lparr>files := (files st)(fallback_filepath bm sng := None)\<rparr>)"
    using assms
    by (auto simp: backup_song_body_def Let_def fallback_filepath_def get_file_checksum_def)
  then show "backup_song env bm sng st =
             (Inr False, st\<lparr>files := (files st)(fallback_filepath bm sng := None)\<rparr>)"
    using assms by (simp add: backup_song_def)
next
  assume t: "backup_song env bm sng st = (Inr True, st')"
  then have body: "backup_song_body env bm sng src st = Inr (True, st')"
    using assms
    by (auto simp: backup_song_def split: sum.splits prod.splits option.splits)
  then show "\<exists>w. files st' (fallback_filepath bm sng) = Some w \<and> md5 w = md5 src"
    using assms
    by (auto simp: backup_song_body_def Let_def fallback_filepath_def get_file_checksum_def
        split: option.splits if_splits sum.splits prod.splits)
  from body show "songs st' =
               map (\<lambda>s. if song_id s = song_id sng
                         then s\<lparr>storage_location := ''both'',
                                song_fallback_path := Some (fallback_filepath bm sng),
                                is_backup_synced := True,
                                backup_date := Some (now env),
                                checksum := Some (md5 src)\<rparr>
                         else s) (songs st)"
    using assms
    by (auto simp: backup_song_body_def Let_def fallback_filepath_def get_file_checksum_def
        mark_backed_up_def
        split: option.splits if_splits sum.splits prod.splits)
qed

lemma state1_paths:
  "files state1 (filepath song1) = Some file_a"
  "fallback_filepath bm0 song1 = ''/home/pi/music_backup/a.mp3''"
  "filepath song1 \<noteq> fallback_filepath bm0 song1"
  by (simp_all add: state1_def song1_def fallback_filepath_def bm0_def basename_def path_join_def)

theorem backup_song_checksum_verified_witness:
  "backup_song env_copy_truncated bm0 song1 state1 =
     (Inr False, state1\<lparr>files := (files state1)(''/home/pi/music_backup/a.mp3'' := None)\<rparr>)
   \<and> map storage_location (songs (snd (backup_song env_copy_truncated bm0 song1 state1)))
       = [''primary'']
   \<and> fst (backup_song env_copy_ok bm0 song1 state1) = Inr True
   \<and> songs (snd (backup_song env_copy_ok bm0 song1 state1)) =
       [song1\<lparr>storage_location := ''both'',
              song_fallback_path := Some ''/home/pi/music_backup/a.mp3'',
              is_backup_synced := True, backup_date := Some 1000,
              checksum := Some ''aaaa''\<rparr>]"
proof -
  have ok: "fst (backup_song env_copy_ok bm0 song1 state1) = Inr True"
    using state1_paths
    by (simp add: backup_song_def backup_song_body_def Let_def fallback_filepath_def
        env_copy_ok_def get_file_checksum_def file_a_def)
  have hyp: "makedirs env_copy_truncated (bm_fallback_path bm0) = None
           \<and> filepath song1 \<noteq> fallback_filepath bm0 song1
           \<and> copy2 env_copy_truncated (filepath song1) file_a (fallback_filepath bm0 song1)
               = Inr \<lparr>md5 = ''bbbb'', file_size = 1024\<rparr>
           \<and> md5 \<lparr>md5 = ''bbbb'', file_size = 1024\<rparr> \<noteq> md5 file_a"
    using state1_paths(3) by (simp add: env_copy_truncated_def env_copy_ok_def file_a_def)
  have run: "backup_song env_copy_ok bm0 song1 state1
      = (Inr True, snd (backup_song env_copy_ok bm0 song1 state1))"
    using ok by (metis prod.collapse)
  have mis: "backup_song env_copy_truncated bm0 song1 state1 =
      (Inr False, state1\<lparr>files := (files state1)(fallback_filepath bm0 song1 := None)\<rparr>)"
    using backup_song_checksum_verified [OF state1_paths(1), of env_copy_truncated bm0
        "\<lparr>md5 = ''bbbb'', file_size = 1024\<rparr>"] hyp
    by blast
  have succ: "songs (snd (backup_song env_copy_ok bm0 song1 state1)) =
      map (\<lambda>s. if song_id s = song_id song1
                then s\<lparr>storage_location := ''both'',
                       song_fallback_path := Some (fallback_filepath bm0 song1),
                       is_backup_synced := True,
                       backup_date := Some (now env_copy_ok),
                       checksum := Some (md5 file_a)\<rparr>
                else s) (songs state1)"
    using backup_song_checksum_verified [OF state1_paths(1), of env_copy_ok bm0 _
        "snd (backup_song env_copy_ok bm0 song1 state1)"] run
    by blast
  have 1: "backup_song env_copy_truncated bm0 song1 state1 =
     (Inr False, state1\<lparr>files := (files state1)(''/home/pi/music_backup/a.mp3'' := None)\<rparr>)"
    using mis unfolding state1_paths(2) .
  have 2: "map storage_location (songs (snd (backup_song env_copy_truncated bm0 song1 state1)))
       = [''primary'']"
    unfolding 1 by (simp add: state1_def song1_def)
  have 4: "songs (snd (backup_song env_copy_ok bm0 song1 state1)) =
       [song1\<lparr>storage_location := ''both'',
              song_fallback_path := Some ''/home/pi/music_backup/a.mp3'',
              is_backup_synced := True, backup_date := Some 1000,
              checksum := Some ''aaaa''\<rparr>]"
    unfolding succ state1_paths(2) by (simp add: state1_def env_copy_ok_def file_a_def)
  show ?thesis
    using 1 2 ok 4 by blast
qed


subsection \<open>verify\_backup\_integrity\<close>

lemma mark_missing_simps [simp]:
  "song_id (mark_missing s) = song_id s"
  "mark_missing (mark_missing s) = mark_missing s"
  by (simp_all add: mark_missing_def)

lemma verify_loop_result:
  assumes "verify_loop xs r st = (r', st')"
    and "\<forall>s\<in>set xs. is_backed_up s \<and> song_fallback_path s \<noteq> None"
  shows "files st' = files st
       \<and> backup_sync_log st' = backup_sync_log st
       \<and> missing r' = missing r + length (filter (\<lambda>s. verdict_of (files st) s = Missing) xs)
       \<and> corrupted r' = corrupted r + length (filter (\<lambda>s. verdict_of (files st) s = Corrupted) xs)
       \<and> verified r' = verified r + length (filter (\<lambda>s. verdict_of (files st) s = Verified) xs)
       \<and> songs st' =
           map (\<lambda>s. if song_id s \<in> song_id ` {x \<in> set xs. verdict_of (files st) x = Missing}
                     then mark_missing s else s) (songs st)"
  using assms
proof (induction xs arbitrary: r st)
  case Nil
  then show ?case by simp
next
  case (Cons x xs)
  from Cons.prems(2) obtain fp where fp: "song_fallback_path x = Some fp" and bu: "is_backed_up x"
    by auto
  have rest: "\<forall>s\<in>set xs. is_backed_up s \<and> song_fallback_path s \<noteq> None"
    using Cons.prems(2) by simp
  show ?case
  proof (cases "files st fp")
    case None
    then have v: "verdict_of (files st) x = Missing"
      using fp bu by (simp add: verdict_of_def)
    let ?st1 = "update_songs (song_id x) mark_missing st"
    have step: "verify_loop xs (r\<lparr>missing := missing r + 1\<rparr>) ?st1 = (r', st')"
      using Cons.prems(1) fp None by (simp add: domIff)
    have f1: "files ?st1 = files st" by simp
    note ih = Cons.IH [OF step rest, unfolded f1]
    have songs: "songs st' =
        map (\<lambda>s. if song_id s \<in> song_id ` {y \<in> set (x # xs). verdict_of (files st) y = Missing}
                  then mark_missing s else s) (songs st)"
      using ih v by (auto simp: comp_def)
    show ?thesis
      using ih v songs by simp
  next
    case (Some f)
    show ?thesis
    proof (cases "truthy (checksum x) \<and> checksum x \<noteq> Some (md5 f)")
      case True
      then have v: "verdict_of (files st) x = Corrupted"
        using fp bu Some by (simp add: verdict_of_def)
      have step: "verify_loop xs (r\<lparr>corrupted := corrupted r + 1\<rparr>) st = (r', st')"
        using Cons.prems(1) fp Some True by (auto simp: domIff get_file_checksum_def)
      note ih = Cons.IH [OF step rest]
      have "{y \<in> set (x # xs). verdict_of (files st) y = Missing}
          = {y \<in> set xs. verdict_of (files st) y = Missing}"
        using v by auto
      then show ?thesis using ih v by simp
    next
      case False
      then have v: "verdict_of (files st) x = Verified"
        using fp bu Some by (simp add: verdict_of_def)
      have step: "verify_loop xs (r\<lparr>verified := verified r + 1\<rparr>) st = (r', st')"
        using Cons.prems(1) fp Some False by (auto simp: domIff get_file_checksum_def)
      note ih = Cons.IH [OF step rest]
      have "{y \<in> set (x # xs). verdict_of (files st) y = Missing}
          = {y \<in> set xs. verdict_of (files st) y = Missing}"
        using v by auto
      then show ?thesis using ih v by simp
    qed
  qed
qed

lemma examined_iff:
  "(verdict_of fs s \<noteq> NotExamined) = (is_backed_up s \<and> song_fallback_path s \<noteq> None)"
  by (auto simp: verdict_of_def split: option.splits)

lemma filter_backup_songs:
  assumes "v \<noteq> NotExamined"
  shows "filter (\<lambda>s. verdict_of fs s = v) (backup_songs st)
       = filter (\<lambda>s. verdict_of fs s = v) (songs st)"
proof -
  have "(is_backed_up s \<and> song_fallback_path s \<noteq> None) \<and> verdict_of fs s = v
        \<longleftrightarrow> verdict_of fs s = v" for s
    using assms examined_iff [of fs s] by auto
  then show ?thesis
    by (simp add: backup_songs_def conj_commute cong: conj_cong)
qed

text \<open>
  C6, as the code has it. With the catalog readable and song ids unique, the three counters
  are the numbers of catalog rows whose verdict is \<open>Missing\<close>, \<open>Corrupted\<close> and \<open>Verified\<close>:
  a row that claims a fallback copy and names a fallback path is missing when no file is
  there, corrupted when its stored checksum is present and non-empty and differs from the
  file's recomputed checksum, and verified otherwise, also when no checksum is stored.
  Exactly the missing rows are demoted to \<open>primary\<close> with the fallback path cleared; every
  other row and every file stay as they were. Rows that claim a fallback copy and have a
  NULL fallback path are not examined.
\<close>

theorem verify_backup_integrity_verdicts:
  assumes "db_raises env TxnVerify = None"
    and "distinct (map song_id (songs st))"
    and "verify_backup_integrity env st = (r, st')"
  shows "missing r = count_verdict Missing st
       \<and> corrupted r = count_verdict Corrupted st
       \<and> verified r = count_verdict Verified st
       \<and> files st' = files st
       \<and> songs st' =
           map (\<lambda>s. if verdict_of (files st) s = Missing then mark_missing s else s) (songs st)"
proof -
  have loop: "verify_loop (backup_songs st) \<lparr>verified = 0, corrupted = 0, missing = 0\<rparr> st
      = (r, st')"
    using assms(1,3) by (simp add: verify_backup_integrity_def)
  have ex: "\<forall>s\<in>set (backup_songs st). is_backed_up s \<and> song_fallback_path s \<noteq> None"
    by (simp add: backup_songs_def)
  note res = verify_loop_result [OF loop ex]
  have inj: "inj_on song_id (set (songs st))"
    using assms(2) by (simp add: distinct_map)
  have ids: "(song_id s \<in> song_id ` {x \<in> set (backup_songs st). verdict_of (files st) x = Missing})
        = (verdict_of (files st) s = Missing)" if "s \<in> set (songs st)" for s
  proof
    assume "song_id s \<in> song_id ` {x \<in> set (backup_songs st). verdict_of (files st) x = Missing}"
    then obtain x where x: "x \<in> set (backup_songs st)" "verdict_of (files st) x = Missing"
      "song_id s = song_id x"
      by auto
    then have "x \<in> set (songs st)" by (simp add: backup_songs_def)
    then have "x = s" using inj that x(3) by (auto dest: inj_onD)
    then show "verdict_of (files st) s = Missing" using x(2) by simp
  next
    assume m: "verdict_of (files st) s = Missing"
    then have "s \<in> set (backup_songs st)"
      using that examined_iff [of "files st" s] by (simp add: backup_songs_def)
    then show "song_id s \<in> song_id ` {x \<in> set (backup_songs st). verdict_of (files st) x = Missing}"
      using m by blast
  qed
  have songs: "songs st' =
      map (\<lambda>s. if verdict_of (files st) s = Missing then mark_missing s else s) (songs st)"
    using res ids by (auto intro: map_cong)
  show ?thesis
    using res songs by (simp add: count_verdict_def filter_backup_songs)
qed

lemma three_backups_verdicts:
  "map (verdict_of (files state_three_backups)) (songs state_three_backups)
     = [Missing, Corrupted, Verified]"
  by (simp add: state_three_backups_def song_with_backup_def verdict_of_def is_backed_up_def
      truthy_def)

theorem verify_backup_integrity_verdicts_witness:
  "fst (verify_backup_integrity env_copy_ok state_three_backups)
     = \<lparr>verified = 1, corrupted = 1, missing = 1\<rparr>
   \<and> map storage_location (songs (snd (verify_backup_integrity env_copy_ok state_three_backups)))
     = [''primary'', ''both'', ''both'']
   \<and> files (snd (verify_backup_integrity env_copy_ok state_three_backups))
     = files state_three_backups"
proof -
  have db: "db_raises env_copy_ok TxnVerify = None"
    by (simp add: env_copy_ok_def)
  have d: "distinct (map song_id (songs state_three_backups))"
    by (simp add: state_three_backups_def song_with_backup_def)
  have v: "verdict_of (files state_three_backups) (song_with_backup 1 ''x'' ''1111'') = Missing"
    "verdict_of (files state_three_backups) (song_with_backup 2 ''y'' ''2222'') = Corrupted"
    "verdict_of (files state_three_backups) (song_with_backup 3 ''z'' ''3333'') = Verified"
    "songs state_three_backups = [song_with_backup 1 ''x'' ''1111'',
       song_with_backup 2 ''y'' ''2222'', song_with_backup 3 ''z'' ''3333'']"
    using three_backups_verdicts by (simp_all add: state_three_backups_def)
  have loc: "storage_location (mark_missing s) = ''primary''"
    "storage_location (song_with_backup i n c) = ''both''" for s i n c
    by (simp_all add: mark_missing_def song_with_backup_def)
  show ?thesis
    using verify_backup_integrity_verdicts [OF db d prod.collapse [symmetric]]
    by (simp add: count_verdict_def v loc verify_results.equality)
qed

text \<open>
  The claim as stated fails on rows without a usable stored checksum: both fallback files
  have a digest that differs from what is stored (nothing, respectively the empty string),
  and both rows are counted as verified, none as corrupted.
\<close>

theorem no_checksum_counts_verified_counterexample:
  "map checksum (songs state_no_checksum) = [None, Some []]
   \<and> get_file_checksum state_no_checksum ''/home/pi/music_backup/b.mp3'' = ''cccc''
   \<and> get_file_checksum state_no_checksum ''/home/pi/music_backup/c.mp3'' = ''dddd''
   \<and> fst (verify_backup_integrity env_copy_ok state_no_checksum)
       = \<lparr>verified = 2, corrupted = 0, missing = 0\<rparr>"
  by (simp add: verify_backup_integrity_def env_copy_ok_def backup_songs_def state_no_checksum_def
      song_null_checksum_def song_empty_checksum_def is_backed_up_def truthy_def
      get_file_checksum_def)


subsection \<open>Updates of the catalog and the backup count\<close>

lemma map_update_absent:
  assumes "i \<notin> song_id ` set xs"
  shows "map (\<lambda>s. if song_id s = i then f s else s) xs = xs"
  using assms by (induction xs) auto

lemma update_ids_comp:
  assumes "\<And>s. song_id (f s) = song_id s"
  shows "song_id \<circ> (\<lambda>s. if Q s then f s else s) = song_id"
  using assms by (auto simp: fun_eq_iff)

lemma map_update_ids:
  assumes "\<And>s. song_id (f s) = song_id s"
  shows "map song_id (map (\<lambda>s. if Q s then f s else s) xs) = map song_id xs"
  by (simp add: update_ids_comp [OF assms])

text \<open>With unique ids an \<^verbatim>\<open>UPDATE ... WHERE id = ?\<close> moves any count by at most one.\<close>

lemma count_update_le:
  assumes "distinct (map song_id xs)"
  shows "length (filter P (map (\<lambda>s. if song_id s = i then f s else s) xs))
           \<le> Suc (length (filter P xs))
       \<and> length (filter P xs)
           \<le> Suc (length (filter P (map (\<lambda>s. if song_id s = i then f s else s) xs)))"
  using assms
proof (induction xs)
  case Nil
  show ?case by simp
next
  case (Cons x xs)
  show ?case
  proof (cases "song_id x = i")
    case True
    then have "i \<notin> song_id ` set xs" using Cons.prems by auto
    then show ?thesis using True by (simp add: map_update_absent)
  next
    case False
    then show ?thesis using Cons.IH Cons.prems by simp
  qed
qed

lemma backup_count_update:
  assumes "distinct (map song_id (songs st))"
  shows "backup_count (update_songs i f st) \<le> Suc (backup_count st)"
    and "backup_count st \<le> Suc (backup_count (update_songs i f st))"
  using count_update_le [OF assms, of is_backed_up i f]
  by (simp_all add: backup_count_def)

lemma backup_count_append_log [simp]: "backup_count (append_log row st) = backup_count st"
  by (simp add: backup_count_def)

lemma backup_count_files [simp]: "backup_count (st\<lparr>files := fs\<rparr>) = backup_count st"
  by (simp add: backup_count_def)

lemma mark_backed_up_id [simp]: "song_id (mark_backed_up p c t s) = song_id s"
  by (simp add: mark_backed_up_def)

lemma demote_simps [simp]:
  "song_id (demote s) = song_id s"
  "demote (demote s) = demote s"
  "\<not> is_backed_up (demote s)"
  by (simp_all add: demote_def is_backed_up_def)



subsection \<open>The candidate loop\<close>



subsection \<open>Eviction\<close>

lemma remove_backup_songs [simp]:
  "songs (remove_backup sng st) =
     map (\<lambda>s. if song_id s = song_id sng then demote s else s) (songs st)"
  by (simp add: remove_backup_def Let_def split: option.splits)








subsection \<open>sync\_backup\_storage\<close>





lemma numbered_song_simps [simp]:
  "song_id (numbered_song i) = int i"
  "storage_location (numbered_song i) = ''both''"
  "is_backed_up (numbered_song i)"
  by (simp_all add: numbered_song_def song_with_backup_def is_backed_up_def)






end
